theory Spec2Isabelle
  imports Complex_Main "HOL-Library.Sublist"
begin

section \<open>JavaScript values\<close>

text \<open>
  A JavaScript string is a sequence of UTF-16 code units. The component's literals are
  mostly Chinese text, so strings are lists of code units (natural numbers below 65536)
  and not 8-bit characters; \<open>ascii\<close> injects an ASCII literal.
\<close>

type_synonym jstring = "nat list"

definition ascii :: "string \<Rightarrow> jstring" where
  "ascii s = map of_char s"

text \<open>
  The values \<open>JSON.parse\<close> can return. \<open>undefined\<close> (a missing property) is \<open>None\<close> of
  \<open>json option\<close>. A number is represented by its exact value; the code only ever tests
  a number for being zero (truthiness). \<open>JObject\<close> lists the own properties of an object.
\<close>

datatype json =
    JNull
  | JBool bool
  | JNumber rat
  | JString jstring
  | JArray "json list"
  | JObject "(jstring \<times> json) list"

text \<open>
  \<open>String.prototype.includes\<close> and \<open>startsWith\<close>; \<open>s.substring(0, n)\<close> is \<open>take n s\<close> and
  \<open>s.substring(n)\<close> is \<open>drop n s\<close>.
\<close>

definition str_includes :: "jstring \<Rightarrow> jstring \<Rightarrow> bool" where
  "str_includes s kw = sublist kw s"

definition startsWith :: "jstring \<Rightarrow> jstring \<Rightarrow> bool" where
  "startsWith s p = prefix p s"

text \<open>
  \<open>String.prototype.split\<close> for a non-empty separator (the code splits on \<open>"\n\n"\<close> and on
  \<open>"\n"\<close>): the pieces between the successive leftmost occurrences of the separator; the
  result always has at least one piece.
\<close>

fun str_split :: "jstring \<Rightarrow> jstring \<Rightarrow> jstring list" where
  "str_split sep [] = [] # []"
| "str_split sep (c # cs) =
     (if sep \<noteq> [] \<and> prefix sep (c # cs)
      then [] # str_split sep (drop (length sep) (c # cs))
      else (case str_split sep cs of
              [] \<Rightarrow> [c] # []
            | piece # pieces \<Rightarrow> (c # piece) # pieces))"

text \<open>
  \<open>String.prototype.trim\<close> removes the ECMAScript white space and line terminator code
  units from both ends.
\<close>

definition isWhiteSpace :: "nat \<Rightarrow> bool" where
  "isWhiteSpace c =
    (c \<in> {0x09, 0x0A, 0x0B, 0x0C, 0x0D, 0x20, 0xA0, 0x1680, 0x2028, 0x2029, 0x202F, 0x205F,
          0x3000, 0xFEFF}
     \<or> (0x2000 \<le> c \<and> c \<le> 0x200A))"

definition trim :: "jstring \<Rightarrow> jstring" where
  "trim s = rev (dropWhile isWhiteSpace (rev (dropWhile isWhiteSpace s)))"

text \<open>The decimal digits of a non-negative integer, as a template literal prints it.\<close>

fun decimal :: "nat \<Rightarrow> jstring" where
  "decimal n = (if n < 10 then [48 + n] else decimal (n div 10) @ [48 + n mod 10])"

text \<open>
  Reading a property of a parsed value. Reading any property of \<open>null\<close> throws a
  \<open>TypeError\<close>, which the callers below handle; of the other values only an object can own
  one of the properties the component reads (\<open>type\<close>, \<open>instance\<close>, \<open>data\<close>, \<open>logs\<close>,
  \<open>time\<close>), every other value yields \<open>undefined\<close>.
\<close>

fun getProp :: "json \<Rightarrow> jstring \<Rightarrow> json option" where
  "getProp (JObject kvs) k = map_of kvs k"
| "getProp _ k = None"

text \<open>JavaScript truthiness, and \<open>a || b\<close> on possibly undefined values.\<close>

fun truthy :: "json option \<Rightarrow> bool" where
  "truthy None = False"
| "truthy (Some JNull) = False"
| "truthy (Some (JBool b)) = b"
| "truthy (Some (JNumber n)) = (n \<noteq> 0)"
| "truthy (Some (JString s)) = (s \<noteq> [])"
| "truthy (Some (JArray xs)) = True"
| "truthy (Some (JObject kvs)) = True"

text \<open>\<open>typeof v === 'string'\<close>\<close>

fun isString :: "json \<Rightarrow> bool" where
  "isString (JString s) = True"
| "isString _ = False"

definition or_else :: "json option \<Rightarrow> json option \<Rightarrow> json option" where
  "or_else a b = (if truthy a then a else b)"

text \<open>
  What the component takes from its platform and from modules outside the sources at
  hand: \<open>JSON.parse\<close> (\<open>None\<close> when it throws a \<open>SyntaxError\<close>), \<open>JSON.stringify\<close>, the
  string conversion of a template literal \<open>${v}\<close>, \<open>String.prototype.toLowerCase\<close> (Unicode
  case tables) and \<open>getEventsUrl\<close> of \<open>@/lib/api\<close>.
\<close>

record platform =
  JSON_parse :: "jstring \<Rightarrow> json option"
  JSON_stringify :: "json \<Rightarrow> jstring"
  String_of :: "json option \<Rightarrow> jstring"
  toLowerCase :: "jstring \<Rightarrow> jstring"
  getEventsUrl :: "jstring \<Rightarrow> jstring"

section \<open>The event log\<close>

datatype event_type = Initial | Create | Update | Delete | Log | Shutdown | Error

text \<open>
  The \<open>timestamp\<close> of an event is \<open>serverEventPayload.time || new Date().toISOString()\<close>:
  either the payload's own (truthy) \<open>time\<close> value or the wall clock at decoding.
\<close>

datatype timestamp = ServerTime json | WallClock

record InstanceEvent =
  type :: event_type
  data :: json
  instanceDetails :: "json option"
  level :: "jstring option"
  timestamp :: timestamp

text \<open>
  \<open>STATUS_MESSAGE_KEYWORDS\<close>, in the order of the source: "initializing", "error",
  "connected", "disabled", "cannot establish", "server closed",
  "event stream connection closed by the server", "connection lost".
\<close>

definition STATUS_MESSAGE_KEYWORDS :: "jstring list" where
  "STATUS_MESSAGE_KEYWORDS =
    [ [0x6b63, 0x5728, 0x521d, 0x59cb, 0x5316],
     [0x9519, 0x8bef],
     [0x5df2, 0x8fde, 0x63a5],
     [0x5df2, 0x7981, 0x7528],
     [0x65e0, 0x6cd5, 0x5efa, 0x7acb],
     [0x670d, 0x52a1, 0x5668, 0x5173, 0x95ed],
     [0x4e8b, 0x4ef6, 0x6d41, 0x8fde, 0x63a5, 0x5df2, 0x7531, 0x670d, 0x52a1, 0x5668, 0x5173, 0x95ed],
     [0x8fde, 0x63a5, 0x5df2, 0x65ad, 0x5f00] ]"

text \<open>
  The test both on the new event and on the buffered ones:
  \<open>typeof e.data === 'string' && STATUS_MESSAGE_KEYWORDS.some(kw => e.data.includes(kw))\<close>.
\<close>

definition isStatusMessage :: "InstanceEvent \<Rightarrow> bool" where
  "isStatusMessage e =
    (case data e of
       JString s \<Rightarrow> list_ex (\<lambda>kw. str_includes s kw) STATUS_MESSAGE_KEYWORDS
     | _ \<Rightarrow> False)"

text \<open>The local \<open>filteredPrevEvents\<close> of \<open>addEventToLog\<close>.\<close>

definition filteredPrevEvents :: "InstanceEvent \<Rightarrow> InstanceEvent list \<Rightarrow> InstanceEvent list" where
  "filteredPrevEvents newEvent prevEvents =
    (if isStatusMessage newEvent
     then filter (\<lambda>e. \<not> isStatusMessage e) prevEvents
     else prevEvents)"

text \<open>\<open>return [newEvent, ...filteredPrevEvents.slice(0, 199)]\<close>\<close>

definition addEventToLog :: "InstanceEvent \<Rightarrow> InstanceEvent list \<Rightarrow> InstanceEvent list" where
  "addEventToLog newEvent prevEvents = newEvent # take 199 (filteredPrevEvents newEvent prevEvents)"

section \<open>Log levels\<close>

text \<open>
  \<open>parseLogLevel\<close> matches \<open>/\b(DEBUG|INFO|WARN|ERROR|FATAL)\b/i\<close> and upper-cases the
  first group. The alternatives of the expression are the entries of \<open>ALL_LOG_LEVELS\<close>, in
  this order. Without the \<open>u\<close> flag the word characters of \<open>\b\<close> are \<open>[A-Za-z0-9_]\<close>, and
  the case-insensitive comparison never identifies a code unit of 128 or more with an ASCII
  letter, so on the alternatives it is the ASCII upper-casing \<open>canonicalize\<close>.
\<close>

definition ALL_LOG_LEVELS :: "jstring list" where
  "ALL_LOG_LEVELS =
    [ascii ''DEBUG'', ascii ''INFO'', ascii ''WARN'', ascii ''ERROR'', ascii ''FATAL'']"

definition isWordChar :: "nat \<Rightarrow> bool" where
  "isWordChar c = ((48 \<le> c \<and> c \<le> 57) \<or> (65 \<le> c \<and> c \<le> 90) \<or> c = 95 \<or> (97 \<le> c \<and> c \<le> 122))"

definition canonicalize :: "nat \<Rightarrow> nat" where
  "canonicalize c = (if 97 \<le> c \<and> c \<le> 122 then c - 32 else c)"

text \<open>\<open>\b\<close> at position \<open>i\<close>: exactly one of the code units before and at \<open>i\<close> is a word character.\<close>

definition wordBoundary :: "jstring \<Rightarrow> nat \<Rightarrow> bool" where
  "wordBoundary s i =
    ((0 < i \<and> i \<le> length s \<and> isWordChar (s ! (i - 1))) \<noteq> (i < length s \<and> isWordChar (s ! i)))"

definition tokenAt :: "jstring \<Rightarrow> nat \<Rightarrow> jstring \<Rightarrow> bool" where
  "tokenAt s i tok =
    (i + length tok \<le> length s \<and> map canonicalize (take (length tok) (drop i s)) = tok)"

text \<open>The whole expression tried at start position \<open>i\<close>; the result is the text of group 1.\<close>

definition matchAt :: "jstring \<Rightarrow> nat \<Rightarrow> jstring option" where
  "matchAt s i =
    (if wordBoundary s i
     then map_option (\<lambda>tok. take (length tok) (drop i s))
            (find (\<lambda>tok. tokenAt s i tok \<and> wordBoundary s (i + length tok)) ALL_LOG_LEVELS)
     else None)"

text \<open>\<open>logMessage.match(...)\<close>: the start positions are tried from left to right.\<close>

definition regexLevelMatch :: "jstring \<Rightarrow> jstring option" where
  "regexLevelMatch s =
    (case find (\<lambda>i. matchAt s i \<noteq> None) [0..<Suc (length s)] of
       None \<Rightarrow> None
     | Some i \<Rightarrow> matchAt s i)"

definition parseLogLevel :: "json \<Rightarrow> jstring option" where
  "parseLogLevel logMessage =
    (case logMessage of
       JString s \<Rightarrow> map_option (map canonicalize) (regexLevelMatch s)
     | _ \<Rightarrow> None)"


section \<open>The session state\<close>

datatype ui_status = Connecting | Connected | Disconnected | ErrorStatus | Idle

text \<open>
  The React state and the refs of the component. Every \<open>new AbortController()\<close> allocates
  an entry of \<open>controllers\<close>, which holds \<open>signal.aborted\<close> of each controller ever made;
  \<open>abortControllerRef\<close> is the index of the current one and the \<open>signal\<close> captured by a
  connection attempt is the index of its own. \<open>reconnectTimeoutRef\<close> holds the delay of
  the pending timer, whose callback is \<open>connectWithFetch(false)\<close>.
\<close>

record session =
  events :: "InstanceEvent list"
  isConnected :: bool
  isConnecting :: bool
  uiConnectionStatus :: ui_status
  controllers :: "bool list"
  abortControllerRef :: "nat option"
  reconnectTimeoutRef :: "nat option"
  retryCountRef :: nat
  hasLoggedInitialConnectionRef :: bool
  currentApiIdRef :: "jstring option"

text \<open>The initial values of \<open>useState\<close> and \<open>useRef\<close>.\<close>

definition initialSession :: session where
  "initialSession =
    \<lparr>events = [], isConnected = False, isConnecting = False, uiConnectionStatus = Idle,
     controllers = [], abortControllerRef = None, reconnectTimeoutRef = None,
     retryCountRef = 0, hasLoggedInitialConnectionRef = False, currentApiIdRef = None\<rparr>"

text \<open>The props of the component; \<open>null\<close> is \<open>None\<close>.\<close>

record props =
  apiId :: "jstring option"
  apiRoot :: "jstring option"
  apiToken :: "jstring option"
  apiName :: "jstring option"

definition present :: "jstring option \<Rightarrow> bool" where
  "present v = (case v of None \<Rightarrow> False | Some s \<Rightarrow> s \<noteq> [])"

text \<open>\<open>apiId && apiRoot && apiToken && apiName\<close>\<close>

definition configValid :: "props \<Rightarrow> bool" where
  "configValid p = (present (apiId p) \<and> present (apiRoot p) \<and> present (apiToken p) \<and> present (apiName p))"

definition RECONNECT_DELAY_MS :: nat where
  "RECONNECT_DELAY_MS = 5000"

definition signalAborted :: "session \<Rightarrow> nat \<Rightarrow> bool" where
  "signalAborted st c = (c < length (controllers st) \<and> controllers st ! c)"

text \<open>\<open>abortControllerRef.current?.signal.aborted\<close>\<close>

definition currentAborted :: "session \<Rightarrow> bool" where
  "currentAborted st = (case abortControllerRef st of None \<Rightarrow> False | Some c \<Rightarrow> signalAborted st c)"

text \<open>
  \<open>if (abortControllerRef.current && !abortControllerRef.current.signal.aborted)
  abortControllerRef.current.abort(...)\<close>
\<close>

definition abortCurrent :: "session \<Rightarrow> session" where
  "abortCurrent st =
    (case abortControllerRef st of
       None \<Rightarrow> st
     | Some c \<Rightarrow> st\<lparr>controllers := (controllers st)[c := True]\<rparr>)"

text \<open>\<open>if (reconnectTimeoutRef.current) { clearTimeout(...); reconnectTimeoutRef.current = null; }\<close>\<close>

definition clearReconnectTimeout :: "session \<Rightarrow> session" where
  "clearReconnectTimeout st = st\<lparr>reconnectTimeoutRef := None\<rparr>"

text \<open>\<open>addEventToLog\<close> as the state update \<open>setEvents(prevEvents => ...)\<close>.\<close>

definition logEvent :: "InstanceEvent \<Rightarrow> session \<Rightarrow> session" where
  "logEvent e st = st\<lparr>events := addEventToLog e (events st)\<rparr>"

text \<open>
  In the words of the specification (section 5): only one attempt is active at a time.
  The current controller exists, and every other controller is aborted.
\<close>

definition oneLiveAttempt :: "session \<Rightarrow> bool" where
  "oneLiveAttempt st =
    ((case abortControllerRef st of None \<Rightarrow> True | Some c \<Rightarrow> c < length (controllers st)) \<and>
     (\<forall>c<length (controllers st). abortControllerRef st \<noteq> Some c \<longrightarrow> controllers st ! c))"

section \<open>Decoding a frame\<close>

definition NL :: jstring where
  "NL = [0x0A]"

text \<open>The loop over the lines of a block: the last \<open>event:\<close> and the last \<open>data:\<close> line win.
  \<open>frameFields\<close> is the loop on the lines of a block, from the initial \<open>'message'\<close> and \<open>''\<close>.\<close>

fun scanLines :: "jstring list \<Rightarrow> jstring \<times> jstring \<Rightarrow> jstring \<times> jstring" where
  "scanLines [] acc = acc"
| "scanLines (line # lines) (eventTypeFromServer, eventDataLine) =
     scanLines lines
       (if startsWith line (ascii ''event:'')
        then (trim (drop (length (ascii ''event:'')) line), eventDataLine)
        else if startsWith line (ascii ''data:'')
        then (eventTypeFromServer, trim (drop (length (ascii ''data:'')) line))
        else (eventTypeFromServer, eventDataLine))"

definition frameFields :: "jstring \<Rightarrow> jstring \<times> jstring" where
  "frameFields messageBlock = scanLines (str_split NL messageBlock) (ascii ''message'', [])"

text \<open>The fixed texts of the decoder (the Chinese literals of the source, as code units).\<close>

definition MSG_shutdown :: jstring where
  "MSG_shutdown = [0x4e3b, 0x63a7, 0x670d, 0x52a1, 0x5373, 0x5c06, 0x5173, 0x95ed, 0x3002,
     0x4e8b, 0x4ef6, 0x6d41, 0x5df2, 0x505c, 0x6b62, 0x3002]"

definition MSG_missing_logs :: jstring where
  "MSG_missing_logs = [0x65e5, 0x5fd7, 0x4e8b, 0x4ef6, 0xff0c, 0x4f46, 0x7f3a, 0x5c11] @
     ascii '' .logs '' @ [0x5b57, 0x6bb5] @ ascii '': ''"

definition MSG_unknown_event :: jstring where
  "MSG_unknown_event = [0x672a, 0x77e5, 0x4e8b, 0x4ef6] @ ascii '' ''"

definition MSG_parse_error :: jstring where
  "MSG_parse_error = [0x89e3, 0x6790, 0x4e8b, 0x4ef6, 0x9519, 0x8bef] @ ascii '' (fetch): ''"

definition MSG_generic :: jstring where
  "MSG_generic = [0x901a, 0x7528, 0x6d88, 0x606f] @ ascii '' (fetch): ''"

text \<open>
  The \<open>switch\<close> on \<open>serverEventPayload.type\<close>, for a payload that is not \<open>null\<close>. The result
  is \<open>frontendEventType\<close>, \<open>frontendEventData\<close>, \<open>parsedLevel\<close> and whether the branch
  aborts the current controller.
\<close>

definition classify :: "platform \<Rightarrow> json \<Rightarrow> event_type \<times> json \<times> jstring option \<times> bool" where
  "classify P serverEventPayload =
    (let instanceDetailsPayload = getProp serverEventPayload (ascii ''instance'');
         lifecycle = (\<lambda>t. (t,
           (case or_else (or_else instanceDetailsPayload (getProp serverEventPayload (ascii ''data'')))
                   (Some (JObject [])) of
              Some v \<Rightarrow> v
            | None \<Rightarrow> JObject []),
           None, False));
         ty = getProp serverEventPayload (ascii ''type'')
     in if ty = Some (JString (ascii ''initial'')) then lifecycle Initial
        else if ty = Some (JString (ascii ''create'')) then lifecycle Create
        else if ty = Some (JString (ascii ''update'')) then lifecycle Update
        else if ty = Some (JString (ascii ''delete'')) then lifecycle Delete
        else if ty = Some (JString (ascii ''log'')) then
          (let frontendEventData =
                 (case or_else (getProp serverEventPayload (ascii ''logs''))
                         (Some (JString (MSG_missing_logs @ JSON_stringify P serverEventPayload))) of
                    Some v \<Rightarrow> v
                  | None \<Rightarrow> JNull)
           in (Log, frontendEventData,
               if isString frontendEventData then parseLogLevel frontendEventData else None,
               False))
        else if ty = Some (JString (ascii ''shutdown'')) then
          (Shutdown, JString MSG_shutdown, None, True)
        else
          (let frontendEventData =
                 JString (MSG_unknown_event @ String_of P ty @ ascii '': '' @
                   (case or_else (or_else (getProp serverEventPayload (ascii ''data''))
                                    instanceDetailsPayload) (Some serverEventPayload) of
                      Some v \<Rightarrow> JSON_stringify P v
                    | None \<Rightarrow> []))
           in (Log, frontendEventData,
               if isString frontendEventData then parseLogLevel frontendEventData else None,
               False)))"

text \<open>The event of the \<open>catch\<close> branch and the event for a frame that is not an instance event.\<close>

definition errorEventToLog :: "jstring \<Rightarrow> InstanceEvent" where
  "errorEventToLog eventDataLine =
    \<lparr>type = Log, data = JString (MSG_parse_error @ eventDataLine), instanceDetails = None,
     level = None, timestamp = WallClock\<rparr>"

definition genericEvent :: "jstring \<Rightarrow> InstanceEvent" where
  "genericEvent eventDataLine =
    \<lparr>type = Log, data = JString (MSG_generic @ eventDataLine), instanceDetails = None,
     level = None, timestamp = WallClock\<rparr>"

text \<open>
  \<open>processSseMessageData\<close>. A \<open>SyntaxError\<close> of \<open>JSON.parse\<close> and the \<open>TypeError\<close> of
  reading \<open>.instance\<close> of \<open>null\<close> both end in the \<open>catch\<close> branch.
\<close>

definition processSseMessageData :: "platform \<Rightarrow> jstring \<Rightarrow> session \<Rightarrow> session" where
  "processSseMessageData P messageBlock st =
    (let (eventTypeFromServer, eventDataLine) = frameFields messageBlock
     in if eventTypeFromServer = ascii ''instance'' \<and> eventDataLine \<noteq> [] then
          (case JSON_parse P eventDataLine of
             None \<Rightarrow> logEvent (errorEventToLog eventDataLine) st
           | Some JNull \<Rightarrow> logEvent (errorEventToLog eventDataLine) st
           | Some serverEventPayload \<Rightarrow>
               (let (frontendEventType, frontendEventData, parsedLevel, aborts) =
                      classify P serverEventPayload;
                    newEventToLog =
                      \<lparr>type = frontendEventType, data = frontendEventData,
                       instanceDetails = getProp serverEventPayload (ascii ''instance''),
                       level = parsedLevel,
                       timestamp =
                         (case getProp serverEventPayload (ascii ''time'') of
                            None \<Rightarrow> WallClock
                          | Some t \<Rightarrow> if truthy (Some t) then ServerTime t else WallClock)\<rparr>
                in logEvent newEventToLog (if aborts then abortCurrent st else st)))
        else if eventDataLine \<noteq> [] then
          (if startsWith eventDataLine (ascii ''retry:'') then st
           else logEvent (genericEvent eventDataLine) st)
        else st)"

section \<open>Connecting, reading and reconnecting\<close>

text \<open>The fixed texts of the connection code.\<close>

definition MSG_config_invalid :: jstring where
  "MSG_config_invalid = ascii ''API '' @
     [0x914d, 0x7f6e, 0x65e0, 0x6548, 0xff0c, 0x4e8b, 0x4ef6, 0x6d41, 0x7981, 0x7528, 0x3002]"

definition MSG_initializing :: jstring where
  "MSG_initializing = [0x6b63, 0x5728, 0x521d, 0x59cb, 0x5316, 0x4e8b, 0x4ef6, 0x6d41] @
     ascii '' (fetch) '' @ [0x5230] @ ascii '' ''"

definition MSG_with_key :: jstring where
  "MSG_with_key = ascii '' ('' @ [0x643a, 0x5e26] @ ascii '' X-API-Key)...''"

definition MSG_connected :: jstring where
  "MSG_connected = [0x4e8b, 0x4ef6, 0x6d41] @ ascii '' (fetch) '' @
     [0x5df2, 0x8fde, 0x63a5, 0x3002, 0x7b49, 0x5f85, 0x4e8b, 0x4ef6] @ ascii ''... ('' @
     [0x76ee, 0x6807] @ ascii '': ''"

definition MSG_http_error :: jstring where
  "MSG_http_error = ascii ''HTTP'' @ [0x9519, 0x8bef] @ ascii '' ''"

definition MSG_details :: jstring where
  "MSG_details = ascii ''. '' @ [0x8be6, 0x60c5] @ ascii '': ''"

definition MSG_empty_body :: jstring where
  "MSG_empty_body = [0x54cd, 0x5e94, 0x4f53, 0x4e3a, 0x7a7a, 0xff0c, 0x65e0, 0x6cd5, 0x8bfb,
     0x53d6, 0x4e8b, 0x4ef6, 0x6d41, 0x3002]"

definition MSG_server_closed :: jstring where
  "MSG_server_closed = [0x670d, 0x52a1, 0x5668, 0x5173, 0x95ed]"

definition MSG_unknown_error :: jstring where
  "MSG_unknown_error = [0x672a, 0x77e5, 0x9519, 0x8bef]"

definition MSG_unknown_target :: jstring where
  "MSG_unknown_target = [0x672a, 0x77e5, 0x76ee, 0x6807]"

definition MSG_closed_by_server :: jstring where
  "MSG_closed_by_server = [0x4e8b, 0x4ef6, 0x6d41, 0x8fde, 0x63a5, 0x5df2, 0x7531, 0x670d,
     0x52a1, 0x5668, 0x5173, 0x95ed, 0x3002]"

definition MSG_seconds_until_attempt :: jstring where
  "MSG_seconds_until_attempt = [0x79d2, 0x540e, 0x5c1d, 0x8bd5, 0x7b2c] @ ascii '' ''"

definition MSG_th_reconnect :: jstring where
  "MSG_th_reconnect = ascii '' '' @ [0x6b21, 0x91cd, 0x8fde] @ ascii ''...''"

definition MSG_target :: jstring where
  "MSG_target = ascii '' ('' @ [0x76ee, 0x6807] @ ascii '': ''"

definition MSG_cannot_connect :: jstring where
  "MSG_cannot_connect = [0x65e0, 0x6cd5, 0x5efa, 0x7acb] @ ascii '' SSE '' @ [0x8fde, 0x63a5] @
     ascii '' (fetch) '' @ [0x5230] @ ascii '' ''"

definition MSG_reason :: jstring where
  "MSG_reason = ascii ''. '' @ [0x539f, 0x56e0] @ ascii '': ''"

definition MSG_cors_hint :: jstring where
  "MSG_cors_hint = [0x8fd9, 0x901a, 0x5e38, 0x7531, 0x4e8e, 0x76ee, 0x6807, 0x670d, 0x52a1,
     0x5668, 0x7684] @ ascii ''CORS'' @ [0x7b56, 0x7565, 0x963b, 0x6b62, 0x4e86, 0x8bf7, 0x6c42] @
     ascii '' ('' @ [0x7f3a, 0x5c11] @ ascii '' Access-Control-Allow-Origin '' @ [0x5934, 0x90e8] @
     ascii ''), '' @ [0x6216, 0x7f51, 0x7edc, 0x8fde, 0x63a5, 0x95ee, 0x9898, 0x3002]"

text \<open>
  A value caught by \<open>catch (error)\<close>, as far as the handler reads it: \<open>error.name\<close> and
  \<open>error.message\<close>, each empty when the value has no such property (the handler cannot
  tell the two apart).
\<close>

record thrown =
  name :: jstring
  message :: jstring

text \<open>
  The outcome of \<open>await fetch(...)\<close>: a rejection, or a response with \<open>ok\<close>, \<open>status\<close>,
  \<open>statusText\<close>, the outcome of \<open>await response.text()\<close> and whether \<open>response.body\<close> is
  there. The outcome of \<open>await reader.read()\<close>: a chunk, given as the text that
  \<open>decoder.decode(value, { stream: true })\<close> makes of it, the end of the stream, or a
  rejection.
\<close>

record response =
  ok :: bool
  status :: nat
  statusText :: jstring
  bodyText :: "thrown + jstring"
  hasBody :: bool

datatype fetch_result = Rejected thrown | Resolved response

datatype read_result = Chunk jstring | Done | ReadRejected thrown

text \<open>The event \<open>{ type: 'log', data: ..., timestamp: new Date().toISOString() }\<close>.\<close>

definition logLine :: "jstring \<Rightarrow> InstanceEvent" where
  "logLine text =
    \<lparr>type = Log, data = JString text, instanceDetails = None, level = None,
     timestamp = WallClock\<rparr>"

definition eventsUrlOf :: "platform \<Rightarrow> props \<Rightarrow> jstring" where
  "eventsUrlOf P p =
    (case apiRoot p of
       None \<Rightarrow> MSG_unknown_target
     | Some r \<Rightarrow> if r \<noteq> [] then getEventsUrl P r else MSG_unknown_target)"

text \<open>The text \<open>uiErrorMessage\<close> of \<open>scheduleReconnect\<close> for the attempt number \<open>n\<close>.\<close>

definition uiErrorMessage :: "platform \<Rightarrow> props \<Rightarrow> jstring \<Rightarrow> nat \<Rightarrow> jstring" where
  "uiErrorMessage P p reason n =
    (if startsWith reason MSG_server_closed
     then MSG_closed_by_server @ decimal (RECONNECT_DELAY_MS div 1000) @
          MSG_seconds_until_attempt @ decimal n @ MSG_th_reconnect @ MSG_target @
          eventsUrlOf P p @ ascii '')''
     else (let corsHint =
                 (if str_includes (toLowerCase P reason) (ascii ''failed to fetch'')
                     \<or> str_includes (toLowerCase P reason) (ascii ''networkerror'')
                  then MSG_cors_hint else [])
           in MSG_cannot_connect @ eventsUrlOf P p @ MSG_reason @ take 100 reason @
              ascii ''... '' @ corsHint @ ascii '' '' @ decimal (RECONNECT_DELAY_MS div 1000) @
              MSG_seconds_until_attempt @ decimal n @ MSG_th_reconnect))"

definition scheduleReconnect :: "platform \<Rightarrow> props \<Rightarrow> jstring \<Rightarrow> session \<Rightarrow> session" where
  "scheduleReconnect P p reason st =
    (if currentAborted st then st
     else
       (let st1 = st\<lparr>retryCountRef := retryCountRef st + 1, isConnected := False,
                     uiConnectionStatus := Disconnected\<rparr>;
            st2 = (if retryCountRef st1 > 1
                   then logEvent ((logLine (uiErrorMessage P p reason (retryCountRef st1)))
                                    \<lparr>level := Some (ascii ''ERROR'')\<rparr>) st1
                   else st1)
        in st2\<lparr>reconnectTimeoutRef := Some RECONNECT_DELAY_MS\<rparr>))"

text \<open>\<open>error.message || "..."\<close>, with the text for an unknown error.\<close>

definition errorReason :: "thrown \<Rightarrow> jstring" where
  "errorReason error = (if message error \<noteq> [] then message error else MSG_unknown_error)"

text \<open>The \<open>catch\<close> block of \<open>connectWithFetch\<close>, for the attempt whose signal is \<open>signal\<close>.\<close>

definition connectCatch :: "platform \<Rightarrow> props \<Rightarrow> nat \<Rightarrow> thrown \<Rightarrow> session \<Rightarrow> session" where
  "connectCatch P p signal error st =
    (let st1 = st\<lparr>isConnected := False, isConnecting := False\<rparr>
     in if signalAborted st1 signal \<and> name error = ascii ''AbortError'' then st1
        else if \<not> signalAborted st1 signal
        then scheduleReconnect P p (errorReason error) st1
        else st1)"

text \<open>
  \<open>connectWithFetch\<close> up to \<open>await fetch(...)\<close>. The result is the new state and the
  signal of the attempt, \<open>None\<close> when the function returned before making one.
\<close>

definition connectWithFetch :: "platform \<Rightarrow> props \<Rightarrow> bool \<Rightarrow> session \<Rightarrow> session \<times> nat option" where
  "connectWithFetch P p isInitialAttemptForCurrentApi st =
    (if \<not> configValid p
     then (logEvent (logLine MSG_config_invalid) (st\<lparr>uiConnectionStatus := Idle\<rparr>), None)
     else
       (let st1 = abortCurrent st;
            signal = length (controllers st1);
            st2 = st1\<lparr>controllers := controllers st1 @ [False], abortControllerRef := Some signal\<rparr>;
            st3 = (if isInitialAttemptForCurrentApi
                   then logEvent (logLine (MSG_initializing @ eventsUrlOf P p @ MSG_with_key))
                          (st2\<lparr>isConnecting := True, uiConnectionStatus := Connecting\<rparr>)
                   else st2)
        in (clearReconnectTimeout st3, Some signal)))"

text \<open>
  What the \<open>try\<close> block throws on a response before it reads the body: for a response
  that is not \<open>ok\<close>, the rejection of \<open>response.text()\<close> or the \<open>Error\<close> made of status
  and text; for a response without a body, the \<open>Error\<close> saying so.
\<close>

definition responseError :: "response \<Rightarrow> thrown option" where
  "responseError r =
    (if \<not> ok r then
       (case bodyText r of
          Inl error \<Rightarrow> Some error
        | Inr errorText \<Rightarrow>
            Some \<lparr>name = ascii ''Error'',
                  message = MSG_http_error @ decimal (status r) @ ascii '': '' @ statusText r @
                            MSG_details @ take 200 errorText\<rparr>)
     else if \<not> hasBody r then Some \<lparr>name = ascii ''Error'', message = MSG_empty_body\<rparr>
     else None)"

text \<open>
  \<open>connectWithFetch\<close> from the outcome of \<open>fetch\<close> to the first \<open>reader.read()\<close>. The
  result is the new state and whether the read loop starts (with an empty \<open>buffer\<close>).
\<close>

definition connectResponse :: "platform \<Rightarrow> props \<Rightarrow> nat \<Rightarrow> fetch_result \<Rightarrow> session \<Rightarrow> session \<times> bool" where
  "connectResponse P p signal res st =
    (case res of
       Rejected error \<Rightarrow> (connectCatch P p signal error st, False)
     | Resolved r \<Rightarrow>
         (case responseError r of
            Some error \<Rightarrow> (connectCatch P p signal error st, False)
          | None \<Rightarrow>
           (let st1 = st\<lparr>isConnected := True, isConnecting := False,
                         uiConnectionStatus := Connected, retryCountRef := 0\<rparr>;
                st2 = (if \<not> hasLoggedInitialConnectionRef st1
                       then (logEvent (logLine (MSG_connected @ eventsUrlOf P p @ ascii '')'')) st1)
                              \<lparr>hasLoggedInitialConnectionRef := True\<rparr>
                       else st1)
            in (st2, True))))"

text \<open>
  What one chunk does to \<open>buffer\<close>: the blocks handed on, in order, and the new buffer
  (\<open>buffer = messageBlocks.pop() || ''\<close>).
\<close>

definition NLNL :: jstring where
  "NLNL = [0x0A, 0x0A]"

definition splitBuffer :: "jstring \<Rightarrow> jstring \<Rightarrow> jstring list \<times> jstring" where
  "splitBuffer buffer text =
    (let messageBlocks = str_split NLNL (buffer @ text)
     in if messageBlocks = [] then ([], [])
        else (filter (\<lambda>block. trim block \<noteq> []) (butlast messageBlocks), last messageBlocks))"

text \<open>
  One turn of the \<open>while (true)\<close> loop, from the outcome of \<open>reader.read()\<close>. The result is
  the new state and the new \<open>buffer\<close>, \<open>None\<close> when the loop is left.
\<close>

definition readStep :: "platform \<Rightarrow> props \<Rightarrow> nat \<Rightarrow> jstring \<Rightarrow> read_result \<Rightarrow> session \<Rightarrow> session \<times> jstring option" where
  "readStep P p signal buffer res st =
    (case res of
       ReadRejected error \<Rightarrow> (connectCatch P p signal error st, None)
     | Done \<Rightarrow>
         if signalAborted st signal then (st, None)
         else (let st1 = st\<lparr>isConnected := False\<rparr>
               in (if \<not> signalAborted st1 signal then scheduleReconnect P p MSG_server_closed st1
                   else st1, None))
     | Chunk text \<Rightarrow>
         if signalAborted st signal then (st, None)
         else (let (blocks, buffer') = splitBuffer buffer text
               in (fold (processSseMessageData P) blocks st, Some buffer')))"

text \<open>The loop over a list of read outcomes; it stops where \<open>readStep\<close> leaves the loop.\<close>

fun readLoop :: "platform \<Rightarrow> props \<Rightarrow> nat \<Rightarrow> jstring \<Rightarrow> read_result list \<Rightarrow> session \<Rightarrow> session" where
  "readLoop P p signal buffer [] st = st"
| "readLoop P p signal buffer (res # rest) st =
     (case readStep P p signal buffer res st of
        (st', None) \<Rightarrow> st'
      | (st', Some buffer') \<Rightarrow> readLoop P p signal buffer' rest st')"

text \<open>
  An attempt is suspended at \<open>await fetch(...)\<close> or at \<open>await reader.read()\<close> (then with
  its \<open>buffer\<close>); \<open>resume\<close> is what it does to the state when the awaited outcome arrives.
\<close>

datatype outcome = FetchOutcome fetch_result | ReadOutcome jstring read_result

definition resume :: "platform \<Rightarrow> props \<Rightarrow> nat \<Rightarrow> outcome \<Rightarrow> session \<Rightarrow> session" where
  "resume P p signal out st =
    (case out of
       FetchOutcome res \<Rightarrow> fst (connectResponse P p signal res st)
     | ReadOutcome buffer res \<Rightarrow> fst (readStep P p signal buffer res st))"

text \<open>
  In the words of the specification: the outcomes that are a disconnection, each with its
  failure reason. The request or a read fails: the reason is the message of the error,
  or the text for an unknown error when it has none. The response is not a 2xx one: the
  reason names status, status text and the first 200 code units of the body (or is that
  of the error, when the body cannot be read). The response has no body: the reason says
  so. The server ends the stream: the reason is the text reserved for that. A chunk and a
  2xx response with a body are no disconnection.
\<close>

definition disconnection :: "outcome \<Rightarrow> jstring option" where
  "disconnection out =
    (case out of
       FetchOutcome (Rejected error) \<Rightarrow>
         Some (if message error = [] then MSG_unknown_error else message error)
     | FetchOutcome (Resolved r) \<Rightarrow>
         if \<not> ok r then
           Some (case bodyText r of
                   Inl error \<Rightarrow> if message error = [] then MSG_unknown_error else message error
                 | Inr errorText \<Rightarrow>
                     MSG_http_error @ decimal (status r) @ ascii '': '' @ statusText r @
                     MSG_details @ take 200 errorText)
         else if \<not> hasBody r then Some MSG_empty_body
         else None
     | ReadOutcome buffer Done \<Rightarrow> Some MSG_server_closed
     | ReadOutcome buffer (ReadRejected error) \<Rightarrow>
         Some (if message error = [] then MSG_unknown_error else message error)
     | ReadOutcome buffer (Chunk text) \<Rightarrow> None)"

text \<open>The body of the effect on \<open>[apiId, apiRoot, apiToken, apiName]\<close> and its cleanup.\<close>

definition useEffect :: "platform \<Rightarrow> props \<Rightarrow> session \<Rightarrow> session \<times> nat option" where
  "useEffect P p st =
    (if configValid p then
       (if currentApiIdRef st \<noteq> apiId p then
          connectWithFetch P p True
            ((clearReconnectTimeout (abortCurrent st))
               \<lparr>events := [], isConnected := False, isConnecting := True,
                uiConnectionStatus := Connecting, retryCountRef := 0,
                hasLoggedInitialConnectionRef := False, currentApiIdRef := apiId p\<rparr>)
        else if \<not> isConnected st \<and> \<not> isConnecting st \<and> reconnectTimeoutRef st = None then
          connectWithFetch P p True
            (st\<lparr>isConnecting := True, uiConnectionStatus := Connecting, retryCountRef := 0\<rparr>)
        else (st, None))
     else
       ((clearReconnectTimeout
           (abortCurrent (st\<lparr>events := [], isConnected := False, isConnecting := False,
                             uiConnectionStatus := Idle\<rparr>)))
          \<lparr>currentApiIdRef := None\<rparr>, None))"

definition useEffectCleanup :: "session \<Rightarrow> session" where
  "useEffectCleanup st = clearReconnectTimeout (abortCurrent st)"

text \<open>The timer of \<open>scheduleReconnect\<close> fires: \<open>connectWithFetch(false)\<close>.\<close>

definition reconnectTimerFires :: "platform \<Rightarrow> props \<Rightarrow> session \<Rightarrow> session \<times> nat option" where
  "reconnectTimerFires P p st = connectWithFetch P p False st"

section \<open>A platform for the examples\<close>

text \<open>
  \<open>jsonParse\<close> reads the JSON grammar of ECMA-404 (white space, the literals, numbers,
  strings with their escapes, arrays and objects; a repeated key keeps its last value) and
  is \<open>None\<close> where \<open>JSON.parse\<close> throws. The recursion is bounded by the length of the
  text, which every nesting and every list of elements stays below. A number gets its
  exact decimal value (\<open>JSON.parse\<close> rounds to a double, which maps a non-zero literal to
  zero only below 1e-323).
\<close>

definition isJsonSpace :: "nat \<Rightarrow> bool" where
  "isJsonSpace c = (c = 0x20 \<or> c = 0x09 \<or> c = 0x0A \<or> c = 0x0D)"

definition skipWs :: "jstring \<Rightarrow> jstring" where
  "skipWs s = dropWhile isJsonSpace s"

definition isDigit :: "nat \<Rightarrow> bool" where
  "isDigit c = (48 \<le> c \<and> c \<le> 57)"

definition hexValue :: "nat \<Rightarrow> nat option" where
  "hexValue c =
    (if 48 \<le> c \<and> c \<le> 57 then Some (c - 48)
     else if 65 \<le> c \<and> c \<le> 70 then Some (c - 55)
     else if 97 \<le> c \<and> c \<le> 102 then Some (c - 87)
     else None)"

definition escapeValue :: "nat \<Rightarrow> nat option" where
  "escapeValue e =
    (if e = 0x22 \<or> e = 0x5C \<or> e = 0x2F then Some e
     else if e = 0x62 then Some 0x08
     else if e = 0x66 then Some 0x0C
     else if e = 0x6E then Some 0x0A
     else if e = 0x72 then Some 0x0D
     else if e = 0x74 then Some 0x09
     else None)"

definition consChar :: "nat \<Rightarrow> (jstring \<times> jstring) option \<Rightarrow> (jstring \<times> jstring) option" where
  "consChar c r = map_option (\<lambda>(s, rest). (c # s, rest)) r"

fun parseStringBody :: "jstring \<Rightarrow> (jstring \<times> jstring) option" where
  "parseStringBody [] = None"
| "parseStringBody (c # cs) =
    (if c = 0x22 then Some ([], cs)
     else if c = 0x5C then
       (case cs of
          [] \<Rightarrow> None
        | e # es \<Rightarrow>
            if e = 0x75 then
              (case es of
                 h1 # h2 # h3 # h4 # rest \<Rightarrow>
                   (case (hexValue h1, hexValue h2, hexValue h3, hexValue h4) of
                      (Some a, Some b, Some c', Some d) \<Rightarrow>
                        consChar (((a * 16 + b) * 16 + c') * 16 + d) (parseStringBody rest)
                    | _ \<Rightarrow> None)
               | _ \<Rightarrow> None)
            else (case escapeValue e of
                    None \<Rightarrow> None
                  | Some x \<Rightarrow> consChar x (parseStringBody es)))
     else if c < 0x20 then None
     else consChar c (parseStringBody cs))"

definition digitsValue :: "jstring \<Rightarrow> nat" where
  "digitsValue ds = foldl (\<lambda>a d. 10 * a + (d - 48)) 0 ds"

definition parseNumber :: "jstring \<Rightarrow> (json \<times> jstring) option" where
  "parseNumber s =
    (let (negative, s1) = (case s of [] \<Rightarrow> (False, s) | c # r \<Rightarrow> if c = 0x2D then (True, r) else (False, s));
         intDigits = takeWhile isDigit s1;
         s2 = dropWhile isDigit s1
     in if intDigits = [] \<or> (length intDigits > 1 \<and> hd intDigits = 48) then None
        else
          (let (fracDigits, fracOk, s3) =
                 (case s2 of
                    [] \<Rightarrow> ([], True, s2)
                  | c # r \<Rightarrow>
                      if c = 0x2E then (takeWhile isDigit r, takeWhile isDigit r \<noteq> [], dropWhile isDigit r)
                      else ([], True, s2));
               (expNegative, expDigits, expOk, s4) =
                 (case s3 of
                    [] \<Rightarrow> (False, [], True, s3)
                  | c # r \<Rightarrow>
                      if c = 0x65 \<or> c = 0x45 then
                        (let (neg, r1) = (case r of [] \<Rightarrow> (False, r)
                                          | d # r' \<Rightarrow> if d = 0x2D then (True, r')
                                                      else if d = 0x2B then (False, r') else (False, r))
                         in (neg, takeWhile isDigit r1, takeWhile isDigit r1 \<noteq> [], dropWhile isDigit r1))
                      else (False, [], True, s3));
               mantissa = (of_nat (digitsValue (intDigits @ fracDigits)) :: rat) / 10 ^ length fracDigits;
               scaled = (if expNegative then mantissa / 10 ^ digitsValue expDigits
                         else mantissa * 10 ^ digitsValue expDigits)
           in if fracOk \<and> expOk then Some (JNumber (if negative then - scaled else scaled), s4)
              else None))"

text \<open>A member in front of the members parsed after it; a later member of the same key wins.\<close>

definition setProp :: "jstring \<Rightarrow> json \<Rightarrow> (jstring \<times> json) list \<Rightarrow> (jstring \<times> json) list" where
  "setProp k v kvs = (if k \<in> fst ` set kvs then kvs else (k, v) # kvs)"

fun parseValue :: "nat \<Rightarrow> jstring \<Rightarrow> (json \<times> jstring) option"
and parseElements :: "nat \<Rightarrow> jstring \<Rightarrow> (json list \<times> jstring) option"
and parseMembers :: "nat \<Rightarrow> jstring \<Rightarrow> ((jstring \<times> json) list \<times> jstring) option" where
  "parseValue 0 s = None"
| "parseValue (Suc fuel) s =
    (case skipWs s of
       [] \<Rightarrow> None
     | c # cs \<Rightarrow>
         if c = 0x7B then
           (case skipWs cs of
              [] \<Rightarrow> None
            | d # ds \<Rightarrow> if d = 0x7D then Some (JObject [], ds)
                        else map_option (\<lambda>(kvs, r). (JObject kvs, r)) (parseMembers fuel cs))
         else if c = 0x5B then
           (case skipWs cs of
              [] \<Rightarrow> None
            | d # ds \<Rightarrow> if d = 0x5D then Some (JArray [], ds)
                        else map_option (\<lambda>(vs, r). (JArray vs, r)) (parseElements fuel cs))
         else if c = 0x22 then map_option (\<lambda>(str, r). (JString str, r)) (parseStringBody cs)
         else if prefix (ascii ''true'') (c # cs) then Some (JBool True, drop 4 (c # cs))
         else if prefix (ascii ''false'') (c # cs) then Some (JBool False, drop 5 (c # cs))
         else if prefix (ascii ''null'') (c # cs) then Some (JNull, drop 4 (c # cs))
         else parseNumber (c # cs))"
| "parseElements 0 s = None"
| "parseElements (Suc fuel) s =
    (case parseValue fuel s of
       None \<Rightarrow> None
     | Some (v, r) \<Rightarrow>
         (case skipWs r of
            [] \<Rightarrow> None
          | c # r' \<Rightarrow>
              if c = 0x2C then map_option (\<lambda>(vs, r''). (v # vs, r'')) (parseElements fuel r')
              else if c = 0x5D then Some ([v], r')
              else None))"
| "parseMembers 0 s = None"
| "parseMembers (Suc fuel) s =
    (case skipWs s of
       [] \<Rightarrow> None
     | q # cs \<Rightarrow>
         if q \<noteq> 0x22 then None
         else
           (case parseStringBody cs of
              None \<Rightarrow> None
            | Some (k, r) \<Rightarrow>
                (case skipWs r of
                   [] \<Rightarrow> None
                 | colon # r1 \<Rightarrow>
                     if colon \<noteq> 0x3A then None
                     else
                       (case parseValue fuel r1 of
                          None \<Rightarrow> None
                        | Some (v, r2) \<Rightarrow>
                            (case skipWs r2 of
                               [] \<Rightarrow> None
                             | c # r3 \<Rightarrow>
                                 if c = 0x2C
                                 then map_option (\<lambda>(kvs, r4). (setProp k v kvs, r4)) (parseMembers fuel r3)
                                 else if c = 0x7D then Some ([(k, v)], r3)
                                 else None)))))"

definition jsonParse :: "jstring \<Rightarrow> json option" where
  "jsonParse s =
    (case parseValue (Suc (length s)) s of
       None \<Rightarrow> None
     | Some (v, r) \<Rightarrow> if skipWs r = [] then Some v else None)"

text \<open>
  \<open>jsonStringify\<close> and \<open>stringOf\<close> print a value as \<open>JSON.stringify\<close> and a template
  literal do, for values whose numbers are integers or short decimals of magnitude below
  1e21 (beyond these JavaScript prints the shortest digits that read back as the same
  double, or an exponent) and whose object keys are no array indices (JavaScript lists
  those first).
\<close>

definition hexDigit :: "nat \<Rightarrow> nat" where
  "hexDigit d = (if d < 10 then 48 + d else 87 + d)"

definition unicodeEscape :: "nat \<Rightarrow> jstring" where
  "unicodeEscape c =
    [0x5C, 0x75, hexDigit (c div 4096 mod 16), hexDigit (c div 256 mod 16),
     hexDigit (c div 16 mod 16), hexDigit (c mod 16)]"

definition isLeadSurrogate :: "nat \<Rightarrow> bool" where
  "isLeadSurrogate c = (0xD800 \<le> c \<and> c \<le> 0xDBFF)"

definition isTrailSurrogate :: "nat \<Rightarrow> bool" where
  "isTrailSurrogate c = (0xDC00 \<le> c \<and> c \<le> 0xDFFF)"

fun quoteChars :: "jstring \<Rightarrow> jstring" where
  "quoteChars [] = []"
| "quoteChars [c] =
    (if c = 0x22 then [0x5C, 0x22]
     else if c = 0x5C then [0x5C, 0x5C]
     else if c = 0x08 then [0x5C, 0x62]
     else if c = 0x0C then [0x5C, 0x66]
     else if c = 0x0A then [0x5C, 0x6E]
     else if c = 0x0D then [0x5C, 0x72]
     else if c = 0x09 then [0x5C, 0x74]
     else if c < 0x20 \<or> isLeadSurrogate c \<or> isTrailSurrogate c then unicodeEscape c
     else [c])"
| "quoteChars (c # d # cs) =
    (if isLeadSurrogate c \<and> isTrailSurrogate d then c # d # quoteChars cs
     else quoteChars [c] @ quoteChars (d # cs))"

definition quote :: "jstring \<Rightarrow> jstring" where
  "quote s = [0x22] @ quoteChars s @ [0x22]"

fun fractionDigits :: "nat \<Rightarrow> rat \<Rightarrow> jstring" where
  "fractionDigits 0 r = []"
| "fractionDigits (Suc fuel) r =
    (if r = 0 then []
     else (48 + nat \<lfloor>r * 10\<rfloor>) # fractionDigits fuel (r * 10 - of_int \<lfloor>r * 10\<rfloor>))"

definition numberText :: "rat \<Rightarrow> jstring" where
  "numberText q =
    (let a = \<bar>q\<bar>; whole = nat \<lfloor>a\<rfloor>; frac = a - of_int \<lfloor>a\<rfloor>
     in (if q < 0 then ascii ''-'' else []) @ decimal whole @
        (if frac = 0 then [] else ascii ''.'' @ fractionDigits 20 frac))"

fun joinWith :: "jstring \<Rightarrow> jstring list \<Rightarrow> jstring" where
  "joinWith sep [] = []"
| "joinWith sep [x] = x"
| "joinWith sep (x # y # ys) = x @ sep @ joinWith sep (y # ys)"

fun jsonStringify :: "json \<Rightarrow> jstring" where
  "jsonStringify JNull = ascii ''null''"
| "jsonStringify (JBool b) = (if b then ascii ''true'' else ascii ''false'')"
| "jsonStringify (JNumber q) = numberText q"
| "jsonStringify (JString s) = quote s"
| "jsonStringify (JArray vs) = ascii ''['' @ joinWith (ascii '','') (map jsonStringify vs) @ ascii '']''"
| "jsonStringify (JObject kvs) =
     ascii ''{'' @ joinWith (ascii '','') (map (\<lambda>(k, v). quote k @ ascii '':'' @ jsonStringify v) kvs) @
     ascii ''}''"

fun stringOfValue :: "json \<Rightarrow> jstring" where
  "stringOfValue JNull = ascii ''null''"
| "stringOfValue (JBool b) = (if b then ascii ''true'' else ascii ''false'')"
| "stringOfValue (JNumber q) = numberText q"
| "stringOfValue (JString s) = s"
| "stringOfValue (JArray vs) =
     joinWith (ascii '','') (map (\<lambda>v. if v = JNull then [] else stringOfValue v) vs)"
| "stringOfValue (JObject kvs) = ascii ''[object Object]''"

definition stringOf :: "json option \<Rightarrow> jstring" where
  "stringOf v = (case v of None \<Rightarrow> ascii ''undefined'' | Some x \<Rightarrow> stringOfValue x)"

text \<open>\<open>toLowerCase\<close> on text of ASCII code units.\<close>

definition asciiLower :: "jstring \<Rightarrow> jstring" where
  "asciiLower s = map (\<lambda>c. if 65 \<le> c \<and> c \<le> 90 then c + 32 else c) s"

text \<open>
  Modelled from the spec: \<open>getEventsUrl\<close> of \<open>@/lib/api\<close> is not among the sources; section 6
  of the spec gives the endpoint of the feed as \<open><root>/events\<close>.
\<close>

definition examplePlatform :: platform where
  "examplePlatform =
    \<lparr>JSON_parse = jsonParse, JSON_stringify = jsonStringify, String_of = stringOf,
     toLowerCase = asciiLower, getEventsUrl = (\<lambda>root. root @ ascii ''/events'')\<rparr>"

text \<open>Events used in the examples below: a plain log line and two status lines.\<close>

definition plainEvent :: "nat \<Rightarrow> InstanceEvent" where
  "plainEvent n =
    \<lparr>type = Log, data = JString (ascii ''tunnel up'' @ [n]), instanceDetails = None,
     level = None, timestamp = WallClock\<rparr>"

definition connectedEvent :: InstanceEvent where
  "connectedEvent =
    \<lparr>type = Log, data = JString (ascii ''SSE '' @ [0x5df2, 0x8fde, 0x63a5]), instanceDetails = None,
     level = None, timestamp = WallClock\<rparr>"

definition lostEvent :: InstanceEvent where
  "lostEvent =
    \<lparr>type = Log, data = JString [0x8fde, 0x63a5, 0x5df2, 0x65ad, 0x5f00], instanceDetails = None,
     level = None, timestamp = WallClock\<rparr>"

text \<open>
  A configuration, a failure of \<open>fetch\<close>, a response with status 503, a good response and
  the session that the effect and the good response make of the initial one; the signal of
  its attempt is 0.
\<close>

definition exampleProps :: props where
  "exampleProps =
    \<lparr>apiId = Some (ascii ''node1''), apiRoot = Some (ascii ''http://10.0.0.1:8080/api''),
     apiToken = Some (ascii ''secret''), apiName = Some (ascii ''lab'')\<rparr>"

definition failedToFetch :: thrown where
  "failedToFetch = \<lparr>name = ascii ''TypeError'', message = ascii ''Failed to fetch''\<rparr>"

definition unavailableResponse :: response where
  "unavailableResponse =
    \<lparr>ok = False, status = 503, statusText = ascii ''Service Unavailable'',
     bodyText = Inr (ascii ''down''), hasBody = True\<rparr>"

definition okResponse :: response where
  "okResponse =
    \<lparr>ok = True, status = 200, statusText = ascii ''OK'', bodyText = Inr [], hasBody = True\<rparr>"

definition connectedSession :: session where
  "connectedSession =
    resume examplePlatform exampleProps 0 (FetchOutcome (Resolved okResponse))
      (fst (useEffect examplePlatform exampleProps initialSession))"

text \<open>Frames used in the examples below.\<close>

definition frame_update_zero :: jstring where
  \<open>frame_update_zero = ascii ''event: instance'' @ NL @ ascii ''data: {"type":"update","data":0}''\<close>


definition frame_shutdown :: jstring where
  \<open>frame_shutdown = ascii ''event: instance'' @ NL @
     ascii ''data: {"type":"shutdown","instance":{"id":"a1"}}''\<close>

definition frame_create :: jstring where
  \<open>frame_create = ascii ''event: instance'' @ NL @
     ascii ''data: {"type":"create","instance":{"id":"a1"},"data":"x"}''\<close>




text \<open>
  The example session after a first and a second failed request: the effect starts the
  attempt with signal 0, whose request fails; the timer fires and starts the attempt with
  signal 1.
\<close>

definition startedSession :: session where
  "startedSession = fst (useEffect examplePlatform exampleProps initialSession)"

definition retryingSession :: session where
  "retryingSession =
    fst (reconnectTimerFires examplePlatform exampleProps
          (resume examplePlatform exampleProps 0 (FetchOutcome (Rejected failedToFetch))
             startedSession))"

text \<open>
  The two chunks of the example of the specification, the frame they make and the event
  decoded from it.
\<close>

definition chunk_a :: jstring where
  "chunk_a = ascii ''event: instance'' @ NL @ ascii ''dat''"

definition chunk_b :: jstring where
  \<open>chunk_b = ascii ''a: {"type":"log","logs":"hello"}'' @ NLNL\<close>

definition frame_hello :: jstring where
  \<open>frame_hello = ascii ''event: instance'' @ NL @ ascii ''data: {"type":"log","logs":"hello"}''\<close>

definition helloEvent :: InstanceEvent where
  "helloEvent =
    \<lparr>type = Log, data = JString (ascii ''hello''), instanceDetails = None, level = None,
     timestamp = WallClock\<rparr>"

text \<open>
  The \<open>buffer\<close> of the read loop over a sequence of chunks, for as long as the loop runs:
  all the blocks handed to \<open>processSseMessageData\<close>, in order, and the buffer left.
\<close>

fun feedChunks :: "jstring \<Rightarrow> jstring list \<Rightarrow> jstring list \<times> jstring" where
  "feedChunks buffer [] = ([], buffer)"
| "feedChunks buffer (chunk # chunks) =
     (let (blocks, buffer') = splitBuffer buffer chunk;
          (more, final) = feedChunks buffer' chunks
      in (blocks @ more, final))"

section \<open>Properties of the event log\<close>

lemma plainEvent_not_status: "\<not> isStatusMessage (plainEvent n)"
  by (simp add: isStatusMessage_def plainEvent_def STATUS_MESSAGE_KEYWORDS_def
      str_includes_def ascii_def sublist_code)

lemma connectedEvent_status: "isStatusMessage connectedEvent"
  by (simp add: isStatusMessage_def connectedEvent_def STATUS_MESSAGE_KEYWORDS_def
      str_includes_def ascii_def sublist_code)

lemma lostEvent_status: "isStatusMessage lostEvent"
  by (simp add: isStatusMessage_def lostEvent_def STATUS_MESSAGE_KEYWORDS_def
      str_includes_def sublist_code)

lemma length_addEventToLog: "length (addEventToLog e evs) \<le> 200"
  by (simp add: addEventToLog_def)

lemma filter_plainEvents:
  "filter (\<lambda>e. \<not> isStatusMessage e) (map plainEvent ns) = map plainEvent ns"
  by (induction ns) (simp_all add: plainEvent_not_status)

lemma plainEvent_inj: "plainEvent m = plainEvent n \<longleftrightarrow> m = n"
  by (simp add: plainEvent_def)

text \<open>
  C5. The log never holds more than 200 entries and every insertion puts the new event
  first. The entries behind it are the first 199 of the buffer that is left after the
  removal of older status lines: when that buffer holds 200 entries its oldest one is
  discarded, and so is the oldest of a full buffer whenever the new event is no status
  line.
\<close>

theorem addEventToLog_bounded:
  "length (addEventToLog e evs) \<le> 200 \<and>
   hd (addEventToLog e evs) = e \<and>
   tl (addEventToLog e evs) = take 199 (filteredPrevEvents e evs) \<and>
   (length (filteredPrevEvents e evs) = 200 \<longrightarrow>
      addEventToLog e evs = e # butlast (filteredPrevEvents e evs)) \<and>
   (\<not> isStatusMessage e \<longrightarrow> length evs = 200 \<longrightarrow> addEventToLog e evs = e # butlast evs)"
  by (simp add: addEventToLog_def filteredPrevEvents_def butlast_conv_take)

theorem addEventToLog_bounded_witness:
  "\<not> isStatusMessage (plainEvent 200) \<and>
   length (map plainEvent [0..<200]) = 200 \<and>
   length (filteredPrevEvents (plainEvent 200) (map plainEvent [0..<200])) = 200 \<and>
   addEventToLog (plainEvent 200) (map plainEvent [0..<200])
     = plainEvent 200 # map plainEvent [0..<199]"
  using addEventToLog_bounded [of "plainEvent 200" "map plainEvent [0..<200]"]
  by (simp add: plainEvent_not_status butlast_conv_take take_map filteredPrevEvents_def)

text \<open>
  C5 as it is stated fails where a status line is inserted into a full buffer that holds
  an older status line: the older status line goes and the oldest entry stays.
\<close>

theorem oldest_kept_counterexample:
  "length (connectedEvent # map plainEvent [0..<199]) = 200 \<and>
   addEventToLog lostEvent (connectedEvent # map plainEvent [0..<199])
     = lostEvent # map plainEvent [0..<199] \<and>
   last (addEventToLog lostEvent (connectedEvent # map plainEvent [0..<199]))
     = last (connectedEvent # map plainEvent [0..<199])"
  by (simp add: addEventToLog_def filteredPrevEvents_def lostEvent_status connectedEvent_status
      filter_plainEvents last_map)

text \<open>
  C4. When the new event is a status line, the buffered status lines are removed first:
  the log then is the new event followed by the buffered events that are no status lines,
  in their order, cut to the first 199. The new event is the only status line of the log,
  and no other event is lost as long as at most 199 of them were buffered.
\<close>

theorem status_insertion:
  "isStatusMessage e \<Longrightarrow>
     addEventToLog e evs = e # take 199 (filter (\<lambda>x. \<not> isStatusMessage x) evs) \<and>
     filter isStatusMessage (addEventToLog e evs) = [e] \<and>
     (length (filter (\<lambda>x. \<not> isStatusMessage x) evs) \<le> 199 \<longrightarrow>
        filter (\<lambda>x. \<not> isStatusMessage x) (addEventToLog e evs)
          = filter (\<lambda>x. \<not> isStatusMessage x) evs)"
proof -
  assume st: "isStatusMessage e"
  let ?ns = "filter (\<lambda>x. \<not> isStatusMessage x) evs"
  have shape: "addEventToLog e evs = e # take 199 ?ns"
    using st by (simp add: addEventToLog_def filteredPrevEvents_def)
  have none: "filter isStatusMessage (take 199 ?ns) = []"
    by (auto simp: filter_empty_conv dest: in_set_takeD)
  have all: "filter (\<lambda>x. \<not> isStatusMessage x) (take 199 ?ns) = take 199 ?ns"
    by (auto simp: filter_id_conv dest: in_set_takeD)
  show ?thesis
    using st shape none all by simp
qed

theorem status_insertion_witness:
  "isStatusMessage lostEvent \<and>
   length (filter (\<lambda>x. \<not> isStatusMessage x) [plainEvent 0, connectedEvent, plainEvent 1]) \<le> 199 \<and>
   addEventToLog lostEvent [plainEvent 0, connectedEvent, plainEvent 1]
     = [lostEvent, plainEvent 0, plainEvent 1]"
  using status_insertion [OF lostEvent_status, of "[plainEvent 0, connectedEvent, plainEvent 1]"]
  by (simp add: lostEvent_status connectedEvent_status plainEvent_not_status)

text \<open>
  C4 as it is stated fails on a buffer of 200 events that are no status lines: the
  insertion of a status line drops the oldest of them.
\<close>

theorem non_status_dropped_counterexample:
  "plainEvent 199 \<in> set (map plainEvent [0..<200]) \<and>
   \<not> isStatusMessage (plainEvent 199) \<and>
   isStatusMessage lostEvent \<and>
   plainEvent 199 \<notin> set (addEventToLog lostEvent (map plainEvent [0..<200]))"
proof -
  have "lostEvent \<noteq> plainEvent 199"
    using lostEvent_status plainEvent_not_status by metis
  then show ?thesis
    by (auto simp: addEventToLog_def filteredPrevEvents_def lostEvent_status
        plainEvent_not_status filter_plainEvents take_map plainEvent_inj)
qed

section \<open>Decoding of instance frames\<close>

lemmas eval_frame = frameFields_def NL_def ascii_def startsWith_def trim_def isWhiteSpace_def
lemmas eval_json = jsonParse_def ascii_def skipWs_def isJsonSpace_def consChar_def setProp_def
  parseNumber_def isDigit_def digitsValue_def escapeValue_def hexValue_def

lemma type_names_distinct:
  "ascii ''initial'' \<noteq> ascii ''create''" "ascii ''initial'' \<noteq> ascii ''update''"
  "ascii ''initial'' \<noteq> ascii ''delete''" "ascii ''create'' \<noteq> ascii ''update''"
  "ascii ''create'' \<noteq> ascii ''delete''" "ascii ''update'' \<noteq> ascii ''delete''"
  "ascii ''create'' \<noteq> ascii ''initial''" "ascii ''update'' \<noteq> ascii ''initial''"
  "ascii ''delete'' \<noteq> ascii ''initial''" "ascii ''update'' \<noteq> ascii ''create''"
  "ascii ''delete'' \<noteq> ascii ''create''" "ascii ''delete'' \<noteq> ascii ''update''"
  by (simp_all add: ascii_def)

lemma or_else_payload:
  "(case or_else (or_else a b) (Some (JObject [])) of Some v \<Rightarrow> v | None \<Rightarrow> JObject []) =
     (if truthy a then the a else if truthy b then the b else JObject [])"
  by (cases a; cases b) (auto simp: or_else_def)

lemma classify_lifecycle:
  assumes "getProp js (ascii ''type'') = Some (JString t)"
    and "(t, k) \<in> {(ascii ''initial'', Initial), (ascii ''create'', Create),
                   (ascii ''update'', Update), (ascii ''delete'', Delete)}"
  shows "classify P js =
     (k, (if truthy (getProp js (ascii ''instance'')) then the (getProp js (ascii ''instance''))
          else if truthy (getProp js (ascii ''data'')) then the (getProp js (ascii ''data''))
          else JObject []), None, False)"
proof -
  from assms(2) consider "t = ascii ''initial''" "k = Initial" | "t = ascii ''create''" "k = Create"
    | "t = ascii ''update''" "k = Update" | "t = ascii ''delete''" "k = Delete"
    by auto
  then show ?thesis
    using assms(1)
    by cases (simp_all add: classify_def Let_def or_else_payload type_names_distinct)
qed

lemma process_instance:
  assumes "frameFields block = (ascii ''instance'', d)" "d \<noteq> []" "JSON_parse P d = Some js" "js \<noteq> JNull"
  shows "processSseMessageData P block st =
     (case classify P js of (ty, dat, lv, ab) \<Rightarrow>
        logEvent \<lparr>type = ty, data = dat, instanceDetails = getProp js (ascii ''instance''),
                  level = lv,
                  timestamp = (case getProp js (ascii ''time'') of None \<Rightarrow> WallClock
                               | Some t \<Rightarrow> if truthy (Some t) then ServerTime t else WallClock)\<rparr>
          (if ab then abortCurrent st else st))"
  using assms
  by (cases js) (simp_all add: processSseMessageData_def Let_def split: prod.splits)


text \<open>
  C6. A frame with event name \<open>instance\<close> whose data parses to JSON with a \<open>type\<close> of
  initial, create, update or delete is decoded to an event of that kind. Its payload is
  the \<open>instance\<close> field when that is truthy, as every embedded instance object is; else the
  \<open>data\<close> field when that is truthy; else an empty object.
\<close>

theorem lifecycle_decoding:
  assumes "frameFields block = (ascii ''instance'', d)" and "d \<noteq> []"
    and "JSON_parse P d = Some js"
    and "getProp js (ascii ''type'') = Some (JString t)"
    and "(t, k) \<in> {(ascii ''initial'', Initial), (ascii ''create'', Create),
                   (ascii ''update'', Update), (ascii ''delete'', Delete)}"
  shows "\<exists>ev. processSseMessageData P block st = logEvent ev st \<and> type ev = k \<and>
           Some (data ev) =
             (if truthy (getProp js (ascii ''instance'')) then getProp js (ascii ''instance'')
              else if truthy (getProp js (ascii ''data'')) then getProp js (ascii ''data'')
              else Some (JObject [])) \<and>
           (\<forall>kvs. getProp js (ascii ''instance'') = Some (JObject kvs) \<longrightarrow> data ev = JObject kvs)"
proof -
  have "js \<noteq> JNull" using assms(4) by auto
  note p = process_instance [OF assms(1,2,3) this, of st]
  note c = classify_lifecycle [OF assms(4,5), of P]
  show ?thesis
    unfolding p c
    by (cases "getProp js (ascii ''instance'')"; cases "getProp js (ascii ''data'')") auto
qed

lemma ff_create: \<open>frameFields frame_create = (ascii ''instance'', ascii ''{"type":"create","instance":{"id":"a1"},"data":"x"}'')\<close>
  by (simp add: frame_create_def eval_frame)

lemma jp_create: \<open>jsonParse (ascii ''{"type":"create","instance":{"id":"a1"},"data":"x"}'') =
   Some (JObject [(ascii ''type'', JString (ascii ''create'')),
                  (ascii ''instance'', JObject [(ascii ''id'', JString (ascii ''a1''))]),
                  (ascii ''data'', JString (ascii ''x''))])\<close>
  by (simp add: eval_json)

theorem lifecycle_decoding_witness:
  \<open>frameFields frame_create = (ascii ''instance'', ascii ''{"type":"create","instance":{"id":"a1"},"data":"x"}'') \<and>
   JSON_parse examplePlatform (ascii ''{"type":"create","instance":{"id":"a1"},"data":"x"}'') =
     Some (JObject [(ascii ''type'', JString (ascii ''create'')),
                  (ascii ''instance'', JObject [(ascii ''id'', JString (ascii ''a1''))]),
                  (ascii ''data'', JString (ascii ''x''))]) \<and>
   (\<exists>ev. processSseMessageData examplePlatform frame_create initialSession = logEvent ev initialSession \<and>
      type ev = Create \<and> data ev = JObject [(ascii ''id'', JString (ascii ''a1''))])\<close>
proof -
  have jp: \<open>JSON_parse examplePlatform (ascii ''{"type":"create","instance":{"id":"a1"},"data":"x"}'') =
     Some (JObject [(ascii ''type'', JString (ascii ''create'')),
                  (ascii ''instance'', JObject [(ascii ''id'', JString (ascii ''a1''))]),
                  (ascii ''data'', JString (ascii ''x''))])\<close>
    by (simp add: examplePlatform_def jp_create)
  have ne: \<open>ascii ''{"type":"create","instance":{"id":"a1"},"data":"x"}'' \<noteq> []\<close>
    by (simp add: ascii_def)
  have ty: "getProp (JObject [(ascii ''type'', JString (ascii ''create'')),
                  (ascii ''instance'', JObject [(ascii ''id'', JString (ascii ''a1''))]),
                  (ascii ''data'', JString (ascii ''x''))]) (ascii ''type'') = Some (JString (ascii ''create''))"
    by simp
  have mem: "(ascii ''create'', Create) \<in> {(ascii ''initial'', Initial), (ascii ''create'', Create),
                   (ascii ''update'', Update), (ascii ''delete'', Delete)}"
    by simp
  have inst: "getProp (JObject [(ascii ''type'', JString (ascii ''create'')),
                  (ascii ''instance'', JObject [(ascii ''id'', JString (ascii ''a1''))]),
                  (ascii ''data'', JString (ascii ''x''))]) (ascii ''instance'')
       = Some (JObject [(ascii ''id'', JString (ascii ''a1''))])"
    by (simp add: ascii_def)
  from lifecycle_decoding [OF ff_create ne jp ty mem, of initialSession]
  show ?thesis
    unfolding inst using ff_create jp by auto
qed

text \<open>
  C6 as it is stated fails for a \<open>data\<close> field that is there but falsy: with
  \<open>"data":0\<close> and no \<open>instance\<close> the payload is the empty object, not the raw field.
\<close>

theorem falsy_data_counterexample:
  \<open>frameFields frame_update_zero = (ascii ''instance'', ascii ''{"type":"update","data":0}'') \<and>
   JSON_parse examplePlatform (ascii ''{"type":"update","data":0}'') =
     Some (JObject [(ascii ''type'', JString (ascii ''update'')), (ascii ''data'', JNumber 0)]) \<and>
   events (processSseMessageData examplePlatform frame_update_zero initialSession) =
     [\<lparr>type = Update, data = JObject [], instanceDetails = None, level = None,
       timestamp = WallClock\<rparr>]\<close>
proof -
  have ff: \<open>frameFields frame_update_zero = (ascii ''instance'', ascii ''{"type":"update","data":0}'')\<close>
    by (simp add: frame_update_zero_def eval_frame)
  have jp: \<open>JSON_parse examplePlatform (ascii ''{"type":"update","data":0}'') =
     Some (JObject [(ascii ''type'', JString (ascii ''update'')), (ascii ''data'', JNumber 0)])\<close>
    by (simp add: examplePlatform_def eval_json)
  have ne: \<open>ascii ''{"type":"update","data":0}'' \<noteq> []\<close>
    by (simp add: ascii_def)
  have c: "classify examplePlatform (JObject [(ascii ''type'', JString (ascii ''update'')), (ascii ''data'', JNumber 0)])
     = (Update, JObject [], None, False)"
    by (subst classify_lifecycle [where t = "ascii ''update''" and k = Update])
       (simp_all add: ascii_def)
  have isd: "isStatusMessage \<lparr>type = Update, data = JObject [], instanceDetails = None, level = None,
       timestamp = WallClock\<rparr> = False"
    by (simp add: isStatusMessage_def)
  have "events (processSseMessageData examplePlatform frame_update_zero initialSession) =
     [\<lparr>type = Update, data = JObject [], instanceDetails = None, level = None,
       timestamp = WallClock\<rparr>]"
    unfolding process_instance [OF ff ne jp, simplified] c
    by (simp add: logEvent_def addEventToLog_def filteredPrevEvents_def initialSession_def
        ascii_def)
  then show ?thesis
    using ff jp by simp
qed






lemma ff_shutdown:
  \<open>frameFields frame_shutdown = (ascii ''instance'', ascii ''{"type":"shutdown","instance":{"id":"a1"}}'')\<close>
  by (simp add: frame_shutdown_def eval_frame)

lemma jp_shutdown:
  \<open>JSON_parse examplePlatform (ascii ''{"type":"shutdown","instance":{"id":"a1"}}'') =
     Some (JObject [(ascii ''type'', JString (ascii ''shutdown'')),
                    (ascii ''instance'', JObject [(ascii ''id'', JString (ascii ''a1''))])])\<close>
  by (simp add: examplePlatform_def eval_json)


section \<open>Level extraction\<close>










lemma find_upt_None:
  "find P [0..<n] = None \<longleftrightarrow> (\<forall>i<n. \<not> P i)"
  by (auto simp: find_None_iff)






lemmas eval_level = parseLogLevel_def regexLevelMatch_def matchAt_def wordBoundary_def tokenAt_def
  ALL_LOG_LEVELS_def ascii_def isWordChar_def canonicalize_def





lemma classify_shutdown:
  assumes "getProp js (ascii ''type'') = Some (JString (ascii ''shutdown''))"
  shows "classify P js = (Shutdown, JString MSG_shutdown, None, True)"
  using assms by (simp add: classify_def Let_def ascii_def)







section \<open>Reconnection\<close>

lemma includes_middle: "str_includes (a @ x @ b) x"
  by (simp add: str_includes_def)

lemma server_closed_in_message: "str_includes MSG_closed_by_server MSG_server_closed"
  using includes_middle [of "[0x4e8b, 0x4ef6, 0x6d41, 0x8fde, 0x63a5, 0x5df2, 0x7531]" MSG_server_closed "[0x3002]"]
  by (simp add: MSG_closed_by_server_def MSG_server_closed_def)

lemma includes_append_left: "str_includes a x \<Longrightarrow> str_includes (a @ b) x"
  by (auto simp: str_includes_def sublist_def) (metis append.assoc)

lemma decimal_digits: "list_all isDigit (decimal n)"
proof (induction n rule: decimal.induct)
  case (1 n)
  show ?case
  proof (cases "n < 10")
    case True
    then show ?thesis by (simp add: isDigit_def)
  next
    case False
    have "n mod 10 < 10" by simp
    then have "isDigit (48 + n mod 10)" unfolding isDigit_def by linarith
    moreover have "decimal n = decimal (n div 10) @ [48 + n mod 10]"
      using False by (subst decimal.simps) (simp del: decimal.simps)
    ultimately show ?thesis using 1 False by (simp del: decimal.simps)
  qed
qed

lemma digitsValue_snoc: "digitsValue (ds @ [d]) = 10 * digitsValue ds + (d - 48)"
  by (simp add: digitsValue_def)

lemma digitsValue_decimal: "digitsValue (decimal n) = n"
proof (induction n rule: decimal.induct)
  case (1 n)
  show ?case
  proof (cases "n < 10")
    case True
    then show ?thesis by (simp add: digitsValue_def)
  next
    case False
    have "decimal n = decimal (n div 10) @ [48 + n mod 10]"
      using False by (subst decimal.simps) (simp del: decimal.simps)
    then have "digitsValue (decimal n) = 10 * digitsValue (decimal (n div 10)) + n mod 10"
      by (simp only: digitsValue_snoc add_diff_cancel_left')
    then show ?thesis using 1 False by (simp del: decimal.simps)
  qed
qed

lemma decimal_not_empty: "decimal n \<noteq> []"
  by (subst decimal.simps) (simp del: decimal.simps)

lemma decimal_no_leading_zero: "0 < n \<Longrightarrow> hd (decimal n) \<noteq> 48"
proof (induction n rule: decimal.induct)
  case (1 n)
  show ?case
  proof (cases "n < 10")
    case True
    then show ?thesis using 1(2) by simp
  next
    case False
    have "decimal n = decimal (n div 10) @ [48 + n mod 10]"
      using False by (subst decimal.simps) (simp del: decimal.simps)
    then have "hd (decimal n) = hd (decimal (n div 10))"
      by (simp only: hd_append2 [OF decimal_not_empty])
    moreover have "0 < n div 10" using False by simp
    ultimately show ?thesis using 1(1) False by (simp del: decimal.simps)
  qed
qed

lemma decimal_delay: "decimal (RECONNECT_DELAY_MS div 1000) = ascii ''5''"
  by (simp add: RECONNECT_DELAY_MS_def ascii_def)

lemma uiErrorMessage_text:
  "uiErrorMessage P p reason n =
    (if prefix MSG_server_closed reason
     then MSG_closed_by_server @ ascii ''5'' @ MSG_seconds_until_attempt @ decimal n @
          MSG_th_reconnect @ MSG_target @ eventsUrlOf P p @ ascii '')''
     else MSG_cannot_connect @ eventsUrlOf P p @ MSG_reason @ take 100 reason @ ascii ''... '' @
          (if sublist (ascii ''failed to fetch'') (toLowerCase P reason)
              \<or> sublist (ascii ''networkerror'') (toLowerCase P reason)
           then MSG_cors_hint else []) @
          ascii '' 5'' @ MSG_seconds_until_attempt @ decimal n @ MSG_th_reconnect)"
proof -
  have sp: "ascii '' 5'' = ascii '' '' @ ascii ''5''"
    by (simp add: ascii_def)
  show ?thesis
    unfolding uiErrorMessage_def decimal_delay sp Let_def startsWith_def str_includes_def
    by (simp del: decimal.simps)
qed

lemma eventsUrlOf_text:
  "eventsUrlOf P p =
    (case apiRoot p of
       None \<Rightarrow> MSG_unknown_target
     | Some base \<Rightarrow> if base = [] then MSG_unknown_target else getEventsUrl P base)"
  by (simp add: eventsUrlOf_def split: option.splits)

lemma cannot_connect_keyword: "str_includes (MSG_cannot_connect @ s) [0x65e0, 0x6cd5, 0x5efa, 0x7acb]"
proof -
  have "MSG_cannot_connect @ s = [] @ [0x65e0, 0x6cd5, 0x5efa, 0x7acb] @
      (ascii '' SSE '' @ [0x8fde, 0x63a5] @ ascii '' (fetch) '' @ [0x5230] @ ascii '' '' @ s)"
    by (simp add: MSG_cannot_connect_def)
  then show ?thesis
    using includes_middle [of "[]" "[0x65e0, 0x6cd5, 0x5efa, 0x7acb]"] by metis
qed

lemma uiErrorMessage_status:
  "isStatusMessage ((logLine (uiErrorMessage P p reason n))\<lparr>level := Some (ascii ''ERROR'')\<rparr>)"
proof (cases "startsWith reason MSG_server_closed")
  case True
  have "str_includes (uiErrorMessage P p reason n) MSG_server_closed"
    using True includes_append_left [OF server_closed_in_message]
    by (simp add: uiErrorMessage_def)
  then show ?thesis
    by (simp add: isStatusMessage_def logLine_def STATUS_MESSAGE_KEYWORDS_def MSG_server_closed_def)
next
  case False
  have "str_includes (uiErrorMessage P p reason n) [0x65e0, 0x6cd5, 0x5efa, 0x7acb]"
    using False cannot_connect_keyword by (simp add: uiErrorMessage_def Let_def)
  then show ?thesis
    by (simp add: isStatusMessage_def logLine_def STATUS_MESSAGE_KEYWORDS_def)
qed

lemma scheduleReconnect_live:
  assumes "\<not> currentAborted st"
  shows "scheduleReconnect P p reason st =
     (if 0 < retryCountRef st
      then logEvent ((logLine (uiErrorMessage P p reason (retryCountRef st + 1)))\<lparr>level := Some (ascii ''ERROR'')\<rparr>)
             (st\<lparr>retryCountRef := retryCountRef st + 1, isConnected := False,
                 uiConnectionStatus := Disconnected\<rparr>)
      else st\<lparr>retryCountRef := retryCountRef st + 1, isConnected := False,
                 uiConnectionStatus := Disconnected\<rparr>)
     \<lparr>reconnectTimeoutRef := Some RECONNECT_DELAY_MS\<rparr>"
  using assms by (simp add: scheduleReconnect_def Let_def)

lemma scheduleReconnect_aborted:
  assumes "currentAborted st"
  shows "scheduleReconnect P p reason st = st"
  using assms by (simp add: scheduleReconnect_def)

lemma currentAborted_flags [simp]:
  "currentAborted (st\<lparr>isConnected := a\<rparr>) = currentAborted st"
  "currentAborted (st\<lparr>isConnecting := b\<rparr>) = currentAborted st"
  "signalAborted (st\<lparr>isConnected := a\<rparr>) c = signalAborted st c"
  "signalAborted (st\<lparr>isConnecting := b\<rparr>) c = signalAborted st c"
  by (simp_all add: currentAborted_def signalAborted_def split: option.splits)

lemma current_live:
  assumes "abortControllerRef st = Some signal" "\<not> signalAborted st signal"
  shows "\<not> currentAborted st"
  using assms by (simp add: currentAborted_def)

lemma connectCatch_live:
  assumes "abortControllerRef st = Some signal" "\<not> signalAborted st signal"
  shows "connectCatch P p signal error st =
     scheduleReconnect P p (errorReason error) (st\<lparr>isConnected := False, isConnecting := False\<rparr>)"
  using assms by (simp add: connectCatch_def Let_def)

lemma resume_disconnection:
  assumes "abortControllerRef st = Some signal" "\<not> signalAborted st signal"
    and "disconnection out = Some reason"
  shows "\<exists>a b. resume P p signal out st =
            scheduleReconnect P p reason (st\<lparr>isConnected := a, isConnecting := b\<rparr>)"
proof (cases out)
  case (FetchOutcome res)
  show ?thesis
  proof (cases res)
    case (Rejected error)
    then have "reason = errorReason error"
      using assms(3) FetchOutcome by (auto simp: disconnection_def errorReason_def)
    then have "resume P p signal out st =
        scheduleReconnect P p reason (st\<lparr>isConnected := False, isConnecting := False\<rparr>)"
      using assms(1,2) FetchOutcome Rejected
      by (simp add: resume_def connectResponse_def connectCatch_live)
    then show ?thesis by blast
  next
    case (Resolved r)
    have "\<exists>error. responseError r = Some error \<and> reason = errorReason error"
    proof (cases "ok r")
      case True
      then show ?thesis
        using assms(3) FetchOutcome Resolved
        by (auto simp: disconnection_def responseError_def errorReason_def MSG_empty_body_def
            split: if_splits)
    next
      case False
      show ?thesis
      proof (cases "bodyText r")
        case (Inl error)
        then show ?thesis
          using assms(3) FetchOutcome Resolved False
          by (auto simp: disconnection_def responseError_def errorReason_def)
      next
        case (Inr errorText)
        have "MSG_http_error @ s \<noteq> []" for s
          by (simp add: MSG_http_error_def ascii_def)
        then show ?thesis
          using assms(3) FetchOutcome Resolved False Inr
          by (auto simp: disconnection_def responseError_def errorReason_def)
      qed
    qed
    then obtain error where "responseError r = Some error" "reason = errorReason error"
      by blast
    then have "resume P p signal out st =
        scheduleReconnect P p reason (st\<lparr>isConnected := False, isConnecting := False\<rparr>)"
      using assms(1,2) FetchOutcome Resolved
      by (simp add: resume_def connectResponse_def connectCatch_live)
    then show ?thesis by blast
  qed
next
  case (ReadOutcome buffer res)
  show ?thesis
  proof (cases res)
    case (Chunk chunk)
    then show ?thesis
      using assms(3) ReadOutcome by (simp add: disconnection_def)
  next
    case Done
    then have "resume P p signal out st =
        scheduleReconnect P p reason (st\<lparr>isConnected := False, isConnecting := isConnecting st\<rparr>)"
      using assms ReadOutcome by (simp add: resume_def readStep_def disconnection_def Let_def)
    then show ?thesis by blast
  next
    case (ReadRejected error)
    then have "reason = errorReason error"
      using assms(3) ReadOutcome by (auto simp: disconnection_def errorReason_def)
    then have "resume P p signal out st =
        scheduleReconnect P p reason (st\<lparr>isConnected := False, isConnecting := False\<rparr>)"
      using assms(1,2) ReadOutcome ReadRejected
      by (simp add: resume_def readStep_def connectCatch_live)
    then show ?thesis by blast
  qed
qed

lemma resume_usable_response:
  assumes "ok r" "hasBody r"
  shows "retryCountRef (resume P p signal (FetchOutcome (Resolved r)) st) = 0"
  using assms
  by (simp add: resume_def connectResponse_def responseError_def Let_def logEvent_def)

lemmas eval_session = useEffect_def connectWithFetch_def configValid_def present_def
  exampleProps_def abortCurrent_def clearReconnectTimeout_def logEvent_def initialSession_def
  resume_def connectResponse_def connectCatch_def scheduleReconnect_def currentAborted_def
  signalAborted_def reconnectTimerFires_def errorReason_def failedToFetch_def responseError_def
  okResponse_def RECONNECT_DELAY_MS_def Let_def

lemma startedSession_eq:
  "startedSession =
    \<lparr>events = addEventToLog (logLine (MSG_initializing @ eventsUrlOf examplePlatform exampleProps @ MSG_with_key)) [],
     isConnected = False, isConnecting = True, uiConnectionStatus = Connecting,
     controllers = [False], abortControllerRef = Some 0, reconnectTimeoutRef = None,
     retryCountRef = 0, hasLoggedInitialConnectionRef = False,
     currentApiIdRef = Some (ascii ''node1'')\<rparr>"
  by (simp add: startedSession_def eval_session ascii_def)

lemma retryingSession_eq:
  "retryingSession =
    \<lparr>events = addEventToLog (logLine (MSG_initializing @ eventsUrlOf examplePlatform exampleProps @ MSG_with_key)) [],
     isConnected = False, isConnecting = False, uiConnectionStatus = Disconnected,
     controllers = [True, False], abortControllerRef = Some 1, reconnectTimeoutRef = None,
     retryCountRef = 1, hasLoggedInitialConnectionRef = False,
     currentApiIdRef = Some (ascii ''node1'')\<rparr>"
  unfolding retryingSession_def startedSession_eq
  by (simp add: eval_session ascii_def)

text \<open>
  C3. An attempt whose controller is the current one and is not aborted resumes with a
  disconnection: the request or a read fails, the response is not a 2xx one or has no
  body, or the server ends the stream. Then the retry counter goes up by one, the status
  is "disconnected" and a reconnection is scheduled after 5000 ms. The first disconnection
  after a successful connection (counter 0) leaves the log as it is. Every later one puts
  exactly one event at the head of the log, of type log and level ERROR, and takes the
  status lines out of the rest; its text is given in full: it names the endpoint, holds
  the first 100 code units of the reason followed by "...", then the hint on CORS and the
  network exactly when the lower-cased reason contains "failed to fetch" or
  "networkerror", the delay in seconds and the attempt number, which is the new value of
  the counter in decimal digits without a leading zero. For a reason that begins with the
  text reserved for the end of the stream the text is the fixed sentence for that case,
  with the delay, the attempt number and the endpoint. A 2xx response with a body resets
  the counter.
\<close>

theorem reconnect_policy:
  assumes "abortControllerRef st = Some signal" and "\<not> signalAborted st signal"
    and "disconnection out = Some reason"
  shows "let st' = resume P p signal out st;
             n = retryCountRef st + 1;
             url = (case apiRoot p of
                      None \<Rightarrow> MSG_unknown_target
                    | Some base \<Rightarrow> if base = [] then MSG_unknown_target else getEventsUrl P base);
             hint = (if sublist (ascii ''failed to fetch'') (toLowerCase P reason)
                        \<or> sublist (ascii ''networkerror'') (toLowerCase P reason)
                     then MSG_cors_hint else []);
             txt = (if prefix MSG_server_closed reason
                    then MSG_closed_by_server @ ascii ''5'' @ MSG_seconds_until_attempt @
                         decimal n @ MSG_th_reconnect @ MSG_target @ url @ ascii '')''
                    else MSG_cannot_connect @ url @ MSG_reason @ take 100 reason @
                         ascii ''... '' @ hint @ ascii '' 5'' @ MSG_seconds_until_attempt @
                         decimal n @ MSG_th_reconnect)
         in retryCountRef st' = n \<and>
            reconnectTimeoutRef st' = Some 5000 \<and>
            uiConnectionStatus st' = Disconnected \<and>
            \<not> isConnected st' \<and>
            (retryCountRef st = 0 \<longrightarrow> events st' = events st) \<and>
            (0 < retryCountRef st \<longrightarrow>
               events st' =
                 \<lparr>type = Log, data = JString txt, instanceDetails = None,
                  level = Some (ascii ''ERROR''), timestamp = WallClock\<rparr>
                 # take 199 (filter (\<lambda>e. \<not> isStatusMessage e) (events st))) \<and>
            digitsValue (decimal n) = n \<and> list_all isDigit (decimal n) \<and>
            hd (decimal n) \<noteq> 48 \<and>
            (\<forall>r. ok r \<and> hasBody r \<longrightarrow>
               retryCountRef (resume P p signal (FetchOutcome (Resolved r)) st) = 0)"
proof -
  let ?n = "retryCountRef st + 1"
  let ?ev = "(logLine (uiErrorMessage P p reason ?n))\<lparr>level := Some (ascii ''ERROR'')\<rparr>"
  obtain a b where r: "resume P p signal out st =
      scheduleReconnect P p reason (st\<lparr>isConnected := a, isConnecting := b\<rparr>)"
    using resume_disconnection [OF assms] by blast
  have live: "\<not> currentAborted (st\<lparr>isConnected := a, isConnecting := b\<rparr>)"
    using current_live [OF assms(1,2)] by simp
  note s = scheduleReconnect_live [OF live, of P p reason]
  have count: "retryCountRef (resume P p signal out st) = ?n"
    unfolding r s by (simp add: logEvent_def)
  have timer: "reconnectTimeoutRef (resume P p signal out st) = Some 5000"
    unfolding r s by (simp add: RECONNECT_DELAY_MS_def logEvent_def)
  have status: "uiConnectionStatus (resume P p signal out st) = Disconnected"
    unfolding r s by (simp add: logEvent_def)
  have offline: "\<not> isConnected (resume P p signal out st)"
    unfolding r s by (simp add: logEvent_def)
  have silent: "events (resume P p signal out st) = events st" if "retryCountRef st = 0"
    unfolding r s using that by simp
  have "events (resume P p signal out st) = addEventToLog ?ev (events st)"
    if "0 < retryCountRef st"
    unfolding r s using that by (simp add: logEvent_def)
  then have loud: "events (resume P p signal out st) =
      ?ev # take 199 (filter (\<lambda>e. \<not> isStatusMessage e) (events st))"
    if "0 < retryCountRef st"
    using that uiErrorMessage_status [of P p reason ?n]
    by (simp add: addEventToLog_def filteredPrevEvents_def)
  have shape: "?ev =
      \<lparr>type = Log, data = JString (uiErrorMessage P p reason ?n), instanceDetails = None,
       level = Some (ascii ''ERROR''), timestamp = WallClock\<rparr>"
    by (simp add: logLine_def)
  note shaped = loud [unfolded shape]
  note logged = shaped [unfolded uiErrorMessage_text eventsUrlOf_text]
  have digits: "digitsValue (decimal ?n) = ?n" "list_all isDigit (decimal ?n)"
      "hd (decimal ?n) \<noteq> 48"
    by (simp_all only: digitsValue_decimal decimal_digits decimal_no_leading_zero
        add_gr_0 zero_less_one simp_thms)
  have reset: "retryCountRef (resume P p signal (FetchOutcome (Resolved r)) st) = 0"
    if "ok r \<and> hasBody r" for r
    using that resume_usable_response by simp
  show ?thesis
    unfolding Let_def
    using count timer status offline silent logged digits reset
    by blast
qed

theorem reconnect_policy_witness:
  "abortControllerRef startedSession = Some 0 \<and> \<not> signalAborted startedSession 0 \<and>
   retryCountRef startedSession = 0 \<and>
   abortControllerRef retryingSession = Some 1 \<and> \<not> signalAborted retryingSession 1 \<and>
   retryCountRef retryingSession = 1 \<and>
   disconnection (FetchOutcome (Rejected failedToFetch)) = Some (ascii ''Failed to fetch'') \<and>
   disconnection (FetchOutcome (Resolved unavailableResponse)) =
     Some (ascii ''HTTP'' @ [0x9519, 0x8bef] @ ascii '' 503: Service Unavailable. '' @
         [0x8be6, 0x60c5] @ ascii '': down'') \<and>
   disconnection (ReadOutcome [] Done) = Some [0x670d, 0x52a1, 0x5668, 0x5173, 0x95ed] \<and>
   retryCountRef (resume examplePlatform exampleProps 0 (FetchOutcome (Rejected failedToFetch)) startedSession) = 1 \<and>
   reconnectTimeoutRef (resume examplePlatform exampleProps 0 (FetchOutcome (Rejected failedToFetch)) startedSession)
     = Some 5000 \<and>
   events (resume examplePlatform exampleProps 0 (FetchOutcome (Rejected failedToFetch)) startedSession)
     = events startedSession \<and>
   retryCountRef (resume examplePlatform exampleProps 1 (FetchOutcome (Rejected failedToFetch)) retryingSession) = 2 \<and>
   reconnectTimeoutRef (resume examplePlatform exampleProps 1 (FetchOutcome (Rejected failedToFetch)) retryingSession)
     = Some 5000 \<and>
   events (resume examplePlatform exampleProps 1 (FetchOutcome (Rejected failedToFetch)) retryingSession) =
     [\<lparr>type = Log,
        data = JString
              ([0x65e0, 0x6cd5, 0x5efa, 0x7acb] @ ascii '' SSE '' @ [0x8fde, 0x63a5] @
               ascii '' (fetch) '' @ [0x5230] @ ascii '' http://10.0.0.1:8080/api/events. '' @
               [0x539f, 0x56e0] @ ascii '': Failed to fetch... '' @
               [0x8fd9, 0x901a, 0x5e38, 0x7531, 0x4e8e, 0x76ee, 0x6807, 0x670d, 0x52a1, 0x5668, 0x7684] @
               ascii ''CORS'' @ [0x7b56, 0x7565, 0x963b, 0x6b62, 0x4e86, 0x8bf7, 0x6c42] @
               ascii '' ('' @ [0x7f3a, 0x5c11] @ ascii '' Access-Control-Allow-Origin '' @
               [0x5934, 0x90e8] @ ascii ''), '' @
               [0x6216, 0x7f51, 0x7edc, 0x8fde, 0x63a5, 0x95ee, 0x9898, 0x3002] @
               ascii '' 5'' @ [0x79d2, 0x540e, 0x5c1d, 0x8bd5, 0x7b2c] @ ascii '' 2 '' @
               [0x6b21, 0x91cd, 0x8fde] @ ascii ''...''),
        instanceDetails = None, level = Some (ascii ''ERROR''), timestamp = WallClock\<rparr>] \<and>
   events (resume examplePlatform exampleProps 1 (FetchOutcome (Resolved unavailableResponse)) retryingSession) =
     [\<lparr>type = Log,
        data = JString
              ([0x65e0, 0x6cd5, 0x5efa, 0x7acb] @ ascii '' SSE '' @ [0x8fde, 0x63a5] @
               ascii '' (fetch) '' @ [0x5230] @ ascii '' http://10.0.0.1:8080/api/events. '' @
               [0x539f, 0x56e0] @ ascii '': HTTP'' @ [0x9519, 0x8bef] @
               ascii '' 503: Service Unavailable. '' @ [0x8be6, 0x60c5] @
               ascii '': down...  5'' @ [0x79d2, 0x540e, 0x5c1d, 0x8bd5, 0x7b2c] @
               ascii '' 2 '' @ [0x6b21, 0x91cd, 0x8fde] @ ascii ''...''),
        instanceDetails = None, level = Some (ascii ''ERROR''), timestamp = WallClock\<rparr>] \<and>
   events (resume examplePlatform exampleProps 1 (ReadOutcome [] Done) retryingSession) =
     [\<lparr>type = Log,
        data = JString
              ([0x4e8b, 0x4ef6, 0x6d41, 0x8fde, 0x63a5, 0x5df2, 0x7531, 0x670d, 0x52a1, 0x5668, 0x5173, 0x95ed, 0x3002] @
               ascii ''5'' @ [0x79d2, 0x540e, 0x5c1d, 0x8bd5, 0x7b2c] @ ascii '' 2 '' @
               [0x6b21, 0x91cd, 0x8fde] @ ascii ''... ('' @ [0x76ee, 0x6807] @
               ascii '': http://10.0.0.1:8080/api/events)''),
        instanceDetails = None, level = Some (ascii ''ERROR''), timestamp = WallClock\<rparr>]"
proof -
  have h0: "abortControllerRef startedSession = Some 0" "\<not> signalAborted startedSession 0"
      "retryCountRef startedSession = 0"
    by (simp_all add: startedSession_eq signalAborted_def)
  have h1: "abortControllerRef retryingSession = Some 1" "\<not> signalAborted retryingSession 1"
      "retryCountRef retryingSession = 1"
    by (simp_all add: retryingSession_eq signalAborted_def)
  have d: "disconnection (FetchOutcome (Rejected failedToFetch)) = Some (ascii ''Failed to fetch'')"
    by (simp add: disconnection_def failedToFetch_def ascii_def)
  have d503: "disconnection (FetchOutcome (Resolved unavailableResponse)) =
     Some (ascii ''HTTP'' @ [0x9519, 0x8bef] @ ascii '' 503: Service Unavailable. '' @
         [0x8be6, 0x60c5] @ ascii '': down'')"
    by (simp add: disconnection_def unavailableResponse_def MSG_http_error_def MSG_details_def
        ascii_def)
  have dc: "disconnection (ReadOutcome [] Done) = Some [0x670d, 0x52a1, 0x5668, 0x5173, 0x95ed]"
    by (simp add: disconnection_def MSG_server_closed_def)
  have init: "str_includes (MSG_initializing @ s) [0x6b63, 0x5728, 0x521d, 0x59cb, 0x5316]" for s
    using includes_middle [of "[]" "[0x6b63, 0x5728, 0x521d, 0x59cb, 0x5316]"
        "[0x4e8b, 0x4ef6, 0x6d41] @ ascii '' (fetch) '' @ [0x5230] @ ascii '' '' @ s"]
    by (simp add: MSG_initializing_def)
  have old: "filter (\<lambda>e. \<not> isStatusMessage e) (events retryingSession) = []"
    using init
    by (simp add: retryingSession_eq addEventToLog_def filteredPrevEvents_def
        isStatusMessage_def logLine_def STATUS_MESSAGE_KEYWORDS_def)
  note texts = examplePlatform_def exampleProps_def asciiLower_def MSG_server_closed_def
    MSG_closed_by_server_def MSG_seconds_until_attempt_def MSG_th_reconnect_def MSG_target_def
    MSG_cannot_connect_def MSG_reason_def MSG_cors_hint_def ascii_def sublist_code
  have first: "retryCountRef (resume examplePlatform exampleProps 0 (FetchOutcome (Rejected failedToFetch)) startedSession) = 1 \<and>
      reconnectTimeoutRef (resume examplePlatform exampleProps 0 (FetchOutcome (Rejected failedToFetch)) startedSession)
        = Some 5000 \<and>
      events (resume examplePlatform exampleProps 0 (FetchOutcome (Rejected failedToFetch)) startedSession)
        = events startedSession"
    using reconnect_policy [OF h0(1,2) d, of examplePlatform exampleProps] h0(3)
    by (simp add: Let_def)
  have second: "retryCountRef (resume examplePlatform exampleProps 1 (FetchOutcome (Rejected failedToFetch)) retryingSession) = 2 \<and>
      reconnectTimeoutRef (resume examplePlatform exampleProps 1 (FetchOutcome (Rejected failedToFetch)) retryingSession)
        = Some 5000 \<and>
      events (resume examplePlatform exampleProps 1 (FetchOutcome (Rejected failedToFetch)) retryingSession) =
        [\<lparr>type = Log,
        data = JString
              ([0x65e0, 0x6cd5, 0x5efa, 0x7acb] @ ascii '' SSE '' @ [0x8fde, 0x63a5] @
               ascii '' (fetch) '' @ [0x5230] @ ascii '' http://10.0.0.1:8080/api/events. '' @
               [0x539f, 0x56e0] @ ascii '': Failed to fetch... '' @
               [0x8fd9, 0x901a, 0x5e38, 0x7531, 0x4e8e, 0x76ee, 0x6807, 0x670d, 0x52a1, 0x5668, 0x7684] @
               ascii ''CORS'' @ [0x7b56, 0x7565, 0x963b, 0x6b62, 0x4e86, 0x8bf7, 0x6c42] @
               ascii '' ('' @ [0x7f3a, 0x5c11] @ ascii '' Access-Control-Allow-Origin '' @
               [0x5934, 0x90e8] @ ascii ''), '' @
               [0x6216, 0x7f51, 0x7edc, 0x8fde, 0x63a5, 0x95ee, 0x9898, 0x3002] @
               ascii '' 5'' @ [0x79d2, 0x540e, 0x5c1d, 0x8bd5, 0x7b2c] @ ascii '' 2 '' @
               [0x6b21, 0x91cd, 0x8fde] @ ascii ''...''),
        instanceDetails = None, level = Some (ascii ''ERROR''), timestamp = WallClock\<rparr>]"
    using reconnect_policy [OF h1(1,2) d, of examplePlatform exampleProps]
    unfolding Let_def h1(3) old
    by (simp add: texts)
  have third: "events (resume examplePlatform exampleProps 1 (FetchOutcome (Resolved unavailableResponse)) retryingSession) =
        [\<lparr>type = Log,
        data = JString
              ([0x65e0, 0x6cd5, 0x5efa, 0x7acb] @ ascii '' SSE '' @ [0x8fde, 0x63a5] @
               ascii '' (fetch) '' @ [0x5230] @ ascii '' http://10.0.0.1:8080/api/events. '' @
               [0x539f, 0x56e0] @ ascii '': HTTP'' @ [0x9519, 0x8bef] @
               ascii '' 503: Service Unavailable. '' @ [0x8be6, 0x60c5] @
               ascii '': down...  5'' @ [0x79d2, 0x540e, 0x5c1d, 0x8bd5, 0x7b2c] @
               ascii '' 2 '' @ [0x6b21, 0x91cd, 0x8fde] @ ascii ''...''),
        instanceDetails = None, level = Some (ascii ''ERROR''), timestamp = WallClock\<rparr>]"
    using reconnect_policy [OF h1(1,2) d503, of examplePlatform exampleProps]
    unfolding Let_def h1(3) old
    by (simp add: texts)
  have fourth: "events (resume examplePlatform exampleProps 1 (ReadOutcome [] Done) retryingSession) =
        [\<lparr>type = Log,
        data = JString
              ([0x4e8b, 0x4ef6, 0x6d41, 0x8fde, 0x63a5, 0x5df2, 0x7531, 0x670d, 0x52a1, 0x5668, 0x5173, 0x95ed, 0x3002] @
               ascii ''5'' @ [0x79d2, 0x540e, 0x5c1d, 0x8bd5, 0x7b2c] @ ascii '' 2 '' @
               [0x6b21, 0x91cd, 0x8fde] @ ascii ''... ('' @ [0x76ee, 0x6807] @
               ascii '': http://10.0.0.1:8080/api/events)''),
        instanceDetails = None, level = Some (ascii ''ERROR''), timestamp = WallClock\<rparr>]"
    using reconnect_policy [OF h1(1,2) dc, of examplePlatform exampleProps]
    unfolding Let_def h1(3) old
    by (simp add: texts)
  show ?thesis
    using h0 h1 d d503 dc first second third fourth by blast
qed

section \<open>Server-signalled shutdown\<close>

lemma resume_aborted:
  assumes "signalAborted st signal"
  shows "reconnectTimeoutRef (resume P p signal out st) = reconnectTimeoutRef st"
proof (cases out)
  case (FetchOutcome res)
  then show ?thesis
    using assms
    by (cases res)
       (auto simp: resume_def connectResponse_def connectCatch_def Let_def logEvent_def
          split: option.splits)
next
  case (ReadOutcome buffer res)
  then show ?thesis
    using assms
    by (cases res) (auto simp: resume_def readStep_def connectCatch_def Let_def)
qed

lemma readStep_aborted:
  assumes "signalAborted st signal"
  shows "snd (readStep P p signal buffer res st) = None \<and>
         events (fst (readStep P p signal buffer res st)) = events st \<and>
         retryCountRef (fst (readStep P p signal buffer res st)) = retryCountRef st \<and>
         reconnectTimeoutRef (fst (readStep P p signal buffer res st)) = reconnectTimeoutRef st"
  using assms by (cases res) (auto simp: readStep_def connectCatch_def Let_def)

lemma abortCurrent_aborts:
  assumes "abortControllerRef st = Some signal" "signal < length (controllers st)"
  shows "signalAborted (abortCurrent st) signal" "currentAborted (abortCurrent st)"
  using assms by (simp_all add: abortCurrent_def signalAborted_def currentAborted_def)

lemma logEvent_keeps [simp]:
  "signalAborted (logEvent e st) c = signalAborted st c"
  "currentAborted (logEvent e st) = currentAborted st"
  "reconnectTimeoutRef (logEvent e st) = reconnectTimeoutRef st"
  "retryCountRef (logEvent e st) = retryCountRef st"
  "events (logEvent e st) = addEventToLog e (events st)"
  by (simp_all add: logEvent_def signalAborted_def currentAborted_def split: option.splits)

lemma abortCurrent_keeps [simp]:
  "reconnectTimeoutRef (abortCurrent st) = reconnectTimeoutRef st"
  "retryCountRef (abortCurrent st) = retryCountRef st"
  "events (abortCurrent st) = events st"
  by (simp_all add: abortCurrent_def split: option.splits)

lemma process_shutdown:
  assumes "frameFields block = (ascii ''instance'', d)" and "d \<noteq> []"
    and "JSON_parse P d = Some js"
    and "getProp js (ascii ''type'') = Some (JString (ascii ''shutdown''))"
  shows "\<exists>ev. processSseMessageData P block st = logEvent ev (abortCurrent st) \<and>
           type ev = Shutdown \<and> data ev = JString MSG_shutdown"
proof -
  have nn: "js \<noteq> JNull" using assms(4) by auto
  let ?ev = "\<lparr>type = Shutdown, data = JString MSG_shutdown,
               instanceDetails = getProp js (ascii ''instance''), level = None,
               timestamp = (case getProp js (ascii ''time'') of None \<Rightarrow> WallClock
                            | Some t \<Rightarrow> if truthy (Some t) then ServerTime t else WallClock)\<rparr>"
  have "processSseMessageData P block st = logEvent ?ev (abortCurrent st)"
    unfolding process_instance [OF assms(1,2,3) nn] classify_shutdown [OF assms(4)] by simp
  then show ?thesis
    by (intro exI [of _ ?ev]) simp
qed

text \<open>
  C2. A frame with event name \<open>instance\<close> whose JSON has the type \<open>shutdown\<close> puts a
  shutdown event with the fixed text into the log and aborts the controller of the
  active read. No reconnection follows from it: timer and retry counter stay as they
  are, the read loop is left at its next turn whatever the read brings, without
  scheduling, and \<open>scheduleReconnect\<close> itself does nothing while the current controller is
  aborted.
\<close>

theorem shutdown_frame:
  assumes "frameFields block = (ascii ''instance'', d)" and "d \<noteq> []"
    and "JSON_parse P d = Some js"
    and "getProp js (ascii ''type'') = Some (JString (ascii ''shutdown''))"
    and "abortControllerRef st = Some signal" and "signal < length (controllers st)"
  shows "(\<exists>ev. events (processSseMessageData P block st) = addEventToLog ev (events st) \<and>
            type ev = Shutdown \<and> data ev = JString MSG_shutdown) \<and>
         signalAborted (processSseMessageData P block st) signal \<and>
         reconnectTimeoutRef (processSseMessageData P block st) = reconnectTimeoutRef st \<and>
         retryCountRef (processSseMessageData P block st) = retryCountRef st \<and>
         (\<forall>buffer res.
            snd (readStep P p signal buffer res (processSseMessageData P block st)) = None \<and>
            reconnectTimeoutRef (fst (readStep P p signal buffer res (processSseMessageData P block st)))
              = reconnectTimeoutRef st \<and>
            retryCountRef (fst (readStep P p signal buffer res (processSseMessageData P block st)))
              = retryCountRef st \<and>
            events (fst (readStep P p signal buffer res (processSseMessageData P block st)))
              = events (processSseMessageData P block st)) \<and>
         (\<forall>reason. scheduleReconnect P p reason (processSseMessageData P block st)
              = processSseMessageData P block st)"
proof -
  obtain ev where p: "processSseMessageData P block st = logEvent ev (abortCurrent st)"
    and ev: "type ev = Shutdown" "data ev = JString MSG_shutdown"
    using process_shutdown [OF assms(1-4)] by blast
  have ab: "signalAborted (processSseMessageData P block st) signal"
      "currentAborted (processSseMessageData P block st)"
    unfolding p using abortCurrent_aborts [OF assms(5,6)] by simp_all
  have e: "\<exists>ev. events (processSseMessageData P block st) = addEventToLog ev (events st) \<and>
            type ev = Shutdown \<and> data ev = JString MSG_shutdown"
    unfolding p using ev by (intro exI [of _ ev]) simp
  have keep: "reconnectTimeoutRef (processSseMessageData P block st) = reconnectTimeoutRef st"
      "retryCountRef (processSseMessageData P block st) = retryCountRef st"
    unfolding p by simp_all
  show ?thesis
    using e ab(1) keep readStep_aborted [OF ab(1), of P p] scheduleReconnect_aborted [OF ab(2), of P p]
    by simp
qed

lemma connectedSession_eq:
  "connectedSession =
    \<lparr>events = addEventToLog (logLine (MSG_connected @ eventsUrlOf examplePlatform exampleProps @ ascii '')''))
                (addEventToLog (logLine (MSG_initializing @ eventsUrlOf examplePlatform exampleProps @ MSG_with_key)) []),
     isConnected = True, isConnecting = False, uiConnectionStatus = Connected,
     controllers = [False], abortControllerRef = Some 0, reconnectTimeoutRef = None,
     retryCountRef = 0, hasLoggedInitialConnectionRef = True,
     currentApiIdRef = Some (ascii ''node1'')\<rparr>"
  unfolding connectedSession_def startedSession_def [symmetric] startedSession_eq
  by (simp add: eval_session ascii_def)

lemma split_shutdown_chunk: "splitBuffer [] (frame_shutdown @ NLNL) = ([frame_shutdown], [])"
  by (simp add: splitBuffer_def NLNL_def frame_shutdown_def NL_def ascii_def trim_def isWhiteSpace_def)

theorem shutdown_frame_witness:
  \<open>frameFields frame_shutdown = (ascii ''instance'', ascii ''{"type":"shutdown","instance":{"id":"a1"}}'') \<and>
   abortControllerRef connectedSession = Some 0 \<and> 0 < length (controllers connectedSession) \<and>
   (\<exists>ev. events (processSseMessageData examplePlatform frame_shutdown connectedSession)
            = addEventToLog ev (events connectedSession) \<and>
      type ev = Shutdown \<and> data ev = JString MSG_shutdown) \<and>
   signalAborted (processSseMessageData examplePlatform frame_shutdown connectedSession) 0 \<and>
   reconnectTimeoutRef (fst (readStep examplePlatform exampleProps 0 [] Done
       (processSseMessageData examplePlatform frame_shutdown connectedSession))) = None\<close>
proof -
  have ne: \<open>ascii ''{"type":"shutdown","instance":{"id":"a1"}}'' \<noteq> []\<close>
    by (simp add: ascii_def)
  have ty: "getProp (JObject [(ascii ''type'', JString (ascii ''shutdown'')),
                    (ascii ''instance'', JObject [(ascii ''id'', JString (ascii ''a1''))])]) (ascii ''type'')
      = Some (JString (ascii ''shutdown''))"
    by simp
  have c: "abortControllerRef connectedSession = Some 0" "0 < length (controllers connectedSession)"
      "reconnectTimeoutRef connectedSession = None"
    by (simp_all add: connectedSession_eq)
  from shutdown_frame [OF ff_shutdown ne jp_shutdown ty c(1,2), of exampleProps]
  show ?thesis
    using ff_shutdown c by simp
qed

text \<open>
  C2 as it is stated fails: after a shutdown frame the end of the stream (or a rejected
  read) leaves no timer and the counter at 0, where the end of the stream alone schedules
  the reconnection.
\<close>

theorem shutdown_no_reconnect_counterexample:
  "reconnectTimeoutRef
     (readLoop examplePlatform exampleProps 0 [] [Chunk (frame_shutdown @ NLNL), Done] connectedSession) = None \<and>
   retryCountRef
     (readLoop examplePlatform exampleProps 0 [] [Chunk (frame_shutdown @ NLNL), Done] connectedSession) = 0 \<and>
   reconnectTimeoutRef
     (readLoop examplePlatform exampleProps 0 [] [Chunk (frame_shutdown @ NLNL), ReadRejected \<lparr>name = [], message = []\<rparr>]
        connectedSession) = None \<and>
   reconnectTimeoutRef (readLoop examplePlatform exampleProps 0 [] [Done] connectedSession) = Some 5000 \<and>
   retryCountRef (readLoop examplePlatform exampleProps 0 [] [Done] connectedSession) = 1"
proof -
  have ne: \<open>ascii ''{"type":"shutdown","instance":{"id":"a1"}}'' \<noteq> []\<close>
    by (simp add: ascii_def)
  have ty: "getProp (JObject [(ascii ''type'', JString (ascii ''shutdown'')),
                    (ascii ''instance'', JObject [(ascii ''id'', JString (ascii ''a1''))])]) (ascii ''type'')
      = Some (JString (ascii ''shutdown''))"
    by simp
  obtain ev where p: "processSseMessageData examplePlatform frame_shutdown connectedSession
      = logEvent ev (abortCurrent connectedSession)"
    using process_shutdown [OF ff_shutdown ne jp_shutdown ty] by blast
  have live: "\<not> signalAborted connectedSession 0"
    by (simp add: connectedSession_eq signalAborted_def)
  have step1: "readStep examplePlatform exampleProps 0 [] (Chunk (frame_shutdown @ NLNL)) connectedSession
      = (processSseMessageData examplePlatform frame_shutdown connectedSession, Some [])"
    using live by (simp add: readStep_def split_shutdown_chunk)
  have ab: "signalAborted (processSseMessageData examplePlatform frame_shutdown connectedSession) 0"
    unfolding p using abortCurrent_aborts(1) [of connectedSession 0]
    by (simp add: connectedSession_eq)
  have keep: "reconnectTimeoutRef (processSseMessageData examplePlatform frame_shutdown connectedSession) = None"
      "retryCountRef (processSseMessageData examplePlatform frame_shutdown connectedSession) = 0"
    unfolding p by (simp_all add: connectedSession_eq)
  let ?S = "processSseMessageData examplePlatform frame_shutdown connectedSession"
  have a: "reconnectTimeoutRef
     (readLoop examplePlatform exampleProps 0 [] [Chunk (frame_shutdown @ NLNL), res] connectedSession) = None \<and>
     retryCountRef
     (readLoop examplePlatform exampleProps 0 [] [Chunk (frame_shutdown @ NLNL), res] connectedSession) = 0" for res
  proof -
    note r = readStep_aborted [OF ab, of examplePlatform exampleProps "[]" res]
    have r2: "readStep examplePlatform exampleProps 0 [] res ?S
        = (fst (readStep examplePlatform exampleProps 0 [] res ?S), None)"
      using r by (metis prod.collapse)
    have "readLoop examplePlatform exampleProps 0 [] [Chunk (frame_shutdown @ NLNL), res] connectedSession
        = readLoop examplePlatform exampleProps 0 [] [res] ?S"
      by (simp add: step1)
    also have "\<dots> = fst (readStep examplePlatform exampleProps 0 [] res ?S)"
      by (subst readLoop.simps, subst r2) simp
    finally show ?thesis
      using r keep by simp
  qed
  have b: "reconnectTimeoutRef (readLoop examplePlatform exampleProps 0 [] [Done] connectedSession) = Some 5000 \<and>
      retryCountRef (readLoop examplePlatform exampleProps 0 [] [Done] connectedSession) = 1"
    by (simp add: connectedSession_eq readStep_def signalAborted_def scheduleReconnect_def
        currentAborted_def Let_def RECONNECT_DELAY_MS_def)
  show ?thesis
    using a [of Done] a [of "ReadRejected \<lparr>name = [], message = []\<rparr>"] b by simp
qed

section \<open>Entering the idle state\<close>

lemma idle_state:
  assumes "\<not> configValid p"
  shows "useEffect P p st =
     ((clearReconnectTimeout
           (abortCurrent (st\<lparr>events := [], isConnected := False, isConnecting := False,
                             uiConnectionStatus := Idle\<rparr>)))
          \<lparr>currentApiIdRef := None\<rparr>, None)"
  using assms by (simp add: useEffect_def)

lemma controllers_abortCurrent:
  "length (controllers (abortCurrent st)) = length (controllers st)"
  "c < length (controllers st) \<Longrightarrow>
     controllers (abortCurrent st) ! c = (controllers st ! c \<or> abortControllerRef st = Some c)"
proof -
  show "length (controllers (abortCurrent st)) = length (controllers st)"
    by (cases "abortControllerRef st") (simp_all add: abortCurrent_def)
  show "controllers (abortCurrent st) ! c = (controllers st ! c \<or> abortControllerRef st = Some c)"
    if "c < length (controllers st)"
  proof (cases "abortControllerRef st")
    case None
    then show ?thesis by (simp add: abortCurrent_def)
  next
    case (Some x)
    then show ?thesis
      using that by (cases "x = c") (simp_all add: abortCurrent_def)
  qed
qed

lemma oneLiveAttempt_iff:
  "oneLiveAttempt st \<longleftrightarrow>
     ((\<forall>c. abortControllerRef st = Some c \<longrightarrow> c < length (controllers st)) \<and>
      (\<forall>c<length (controllers st). abortControllerRef st \<noteq> Some c \<longrightarrow> controllers st ! c))"
  by (auto simp: oneLiveAttempt_def split: option.splits)

lemma oneLiveAttempt_initial: "oneLiveAttempt initialSession"
  by (simp add: oneLiveAttempt_iff initialSession_def)

lemma live_attempt_is_current:
  assumes "oneLiveAttempt st" "signal < length (controllers st)" "\<not> signalAborted st signal"
  shows "abortControllerRef st = Some signal"
  using assms by (auto simp: oneLiveAttempt_iff signalAborted_def)

lemma oneLiveAttempt_abortCurrent:
  assumes "oneLiveAttempt st"
  shows "oneLiveAttempt (abortCurrent st)"
    and "\<forall>c<length (controllers (abortCurrent st)). controllers (abortCurrent st) ! c"
  using assms
  by (auto simp: oneLiveAttempt_iff abortCurrent_def nth_list_update split: option.splits)

lemma oneLiveAttempt_logEvent [simp]: "oneLiveAttempt (logEvent e st) = oneLiveAttempt st"
  by (simp add: oneLiveAttempt_iff logEvent_def)

lemma oneLiveAttempt_clear [simp]: "oneLiveAttempt (clearReconnectTimeout st) = oneLiveAttempt st"
  by (simp add: oneLiveAttempt_iff clearReconnectTimeout_def)

lemma oneLiveAttempt_processSseMessageData:
  assumes "oneLiveAttempt st"
  shows "oneLiveAttempt (processSseMessageData P block st)"
  using assms oneLiveAttempt_abortCurrent(1)
  by (auto simp: processSseMessageData_def Let_def split: prod.splits option.splits json.splits)

lemma oneLiveAttempt_fold:
  assumes "oneLiveAttempt st"
  shows "oneLiveAttempt (fold (processSseMessageData P) blocks st)"
  using assms
  by (induction blocks arbitrary: st) (simp_all add: oneLiveAttempt_processSseMessageData)

lemma oneLiveAttempt_scheduleReconnect:
  assumes "oneLiveAttempt st"
  shows "oneLiveAttempt (scheduleReconnect P p reason st)"
  using assms by (simp add: scheduleReconnect_def Let_def oneLiveAttempt_iff logEvent_def)

lemma oneLiveAttempt_connectCatch:
  assumes "oneLiveAttempt st"
  shows "oneLiveAttempt (connectCatch P p signal error st)"
proof -
  have "oneLiveAttempt (st\<lparr>isConnected := False, isConnecting := False\<rparr>)"
    using assms by (simp add: oneLiveAttempt_iff)
  then show ?thesis
    by (simp add: connectCatch_def Let_def oneLiveAttempt_scheduleReconnect)
qed

lemma oneLiveAttempt_connectWithFetch:
  assumes "oneLiveAttempt st"
  shows "oneLiveAttempt (fst (connectWithFetch P p b st))"
proof (cases "configValid p")
  case False
  then show ?thesis
    using assms by (simp add: connectWithFetch_def oneLiveAttempt_iff logEvent_def)
next
  case True
  have all: "\<forall>c<length (controllers (abortCurrent st)). controllers (abortCurrent st) ! c"
    using oneLiveAttempt_abortCurrent(2) [OF assms] .
  have "oneLiveAttempt ((abortCurrent st)\<lparr>controllers := controllers (abortCurrent st) @ [False],
      abortControllerRef := Some (length (controllers (abortCurrent st)))\<rparr>)"
    using all by (auto simp: oneLiveAttempt_iff nth_append)
  then show ?thesis
    using True
    by (simp add: connectWithFetch_def Let_def)
       (simp add: oneLiveAttempt_iff logEvent_def clearReconnectTimeout_def)
qed

lemma oneLiveAttempt_resume:
  assumes "oneLiveAttempt st"
  shows "oneLiveAttempt (resume P p signal out st)"
proof (cases out)
  case (FetchOutcome res)
  show ?thesis
  proof (cases res)
    case (Rejected error)
    then show ?thesis
      using FetchOutcome assms
      by (simp add: resume_def connectResponse_def oneLiveAttempt_connectCatch)
  next
    case (Resolved r)
    show ?thesis
    proof (cases "responseError r")
      case None
      then show ?thesis
        using FetchOutcome Resolved assms
        by (simp add: resume_def connectResponse_def Let_def oneLiveAttempt_iff logEvent_def)
    next
      case (Some error)
      then show ?thesis
        using FetchOutcome Resolved assms
        by (simp add: resume_def connectResponse_def oneLiveAttempt_connectCatch)
    qed
  qed
next
  case (ReadOutcome buffer res)
  show ?thesis
  proof (cases res)
    case (Chunk chunk)
    then show ?thesis
      using ReadOutcome assms
      by (simp add: resume_def readStep_def oneLiveAttempt_fold split: prod.splits)
  next
    case Done
    have "oneLiveAttempt (st\<lparr>isConnected := False\<rparr>)"
      using assms by (simp add: oneLiveAttempt_iff)
    then show ?thesis
      using ReadOutcome Done assms
      by (simp add: resume_def readStep_def Let_def oneLiveAttempt_scheduleReconnect)
  next
    case (ReadRejected error)
    then show ?thesis
      using ReadOutcome assms
      by (simp add: resume_def readStep_def oneLiveAttempt_connectCatch)
  qed
qed

lemma oneLiveAttempt_useEffectCleanup:
  assumes "oneLiveAttempt st"
  shows "oneLiveAttempt (useEffectCleanup st)"
  using oneLiveAttempt_abortCurrent(1) [OF assms] by (simp add: useEffectCleanup_def)

lemma oneLiveAttempt_useEffect:
  assumes "oneLiveAttempt st"
  shows "oneLiveAttempt (fst (useEffect P p st))"
proof -
  have a: "oneLiveAttempt ((clearReconnectTimeout (abortCurrent st))
               \<lparr>events := [], isConnected := False, isConnecting := True,
                uiConnectionStatus := Connecting, retryCountRef := 0,
                hasLoggedInitialConnectionRef := False, currentApiIdRef := apiId p\<rparr>)"
    using oneLiveAttempt_abortCurrent(1) [OF assms]
    by (simp add: oneLiveAttempt_iff clearReconnectTimeout_def)
  have b: "oneLiveAttempt (st\<lparr>isConnecting := True, uiConnectionStatus := Connecting, retryCountRef := 0\<rparr>)"
    using assms by (simp add: oneLiveAttempt_iff)
  have "oneLiveAttempt (abortCurrent (st\<lparr>events := [], isConnected := False, isConnecting := False,
                             uiConnectionStatus := Idle\<rparr>))"
    by (rule oneLiveAttempt_abortCurrent(1)) (use assms in \<open>simp add: oneLiveAttempt_iff\<close>)
  then have c: "oneLiveAttempt ((clearReconnectTimeout
           (abortCurrent (st\<lparr>events := [], isConnected := False, isConnecting := False,
                             uiConnectionStatus := Idle\<rparr>)))
          \<lparr>currentApiIdRef := None\<rparr>)"
    by (simp add: oneLiveAttempt_iff clearReconnectTimeout_def)
  show ?thesis
    using a b c assms
    by (simp add: useEffect_def oneLiveAttempt_connectWithFetch)
qed

lemma oneLiveAttempt_reconnectTimerFires:
  assumes "oneLiveAttempt st"
  shows "oneLiveAttempt (fst (reconnectTimerFires P p st))"
  using assms by (simp add: reconnectTimerFires_def oneLiveAttempt_connectWithFetch)

lemma idle_all_aborted:
  assumes "\<not> configValid p" "oneLiveAttempt st" "c < length (controllers st)"
  shows "signalAborted (fst (useEffect P p st)) c"
proof -
  have "oneLiveAttempt (st\<lparr>events := [], isConnected := False, isConnecting := False,
                             uiConnectionStatus := Idle\<rparr>)"
    using assms(2) by (simp add: oneLiveAttempt_iff)
  from oneLiveAttempt_abortCurrent(2) [OF this]
  show ?thesis
    using assms(1,3)
    by (simp add: idle_state signalAborted_def clearReconnectTimeout_def controllers_abortCurrent(1))
qed

text \<open>
  C9. When the effect runs with an identity of which a field is missing, from any state:
  the status becomes idle, the log is emptied, the pending timer is cleared, the current
  controller is aborted (and no other is revived), no attempt is started, and whatever an
  aborted attempt resumes with afterwards schedules no reconnection. No event is put into
  the log on this way; the text on the disabled feed is logged only by
  \<open>connectWithFetch\<close>, when that is called with such an identity. In a session where only
  one attempt is live, as in every session that the component's steps make of the initial
  one, all controllers are aborted afterwards.
\<close>

theorem idle_entry:
  assumes "\<not> configValid p"
  shows "snd (useEffect P p st) = None \<and>
         uiConnectionStatus (fst (useEffect P p st)) = Idle \<and>
         \<not> isConnected (fst (useEffect P p st)) \<and>
         \<not> isConnecting (fst (useEffect P p st)) \<and>
         events (fst (useEffect P p st)) = [] \<and>
         reconnectTimeoutRef (fst (useEffect P p st)) = None \<and>
         retryCountRef (fst (useEffect P p st)) = retryCountRef st \<and>
         currentApiIdRef (fst (useEffect P p st)) = None \<and>
         (\<forall>c < length (controllers st).
            signalAborted (fst (useEffect P p st)) c =
              (signalAborted st c \<or> abortControllerRef st = Some c)) \<and>
         (oneLiveAttempt st \<longrightarrow>
            (\<forall>c < length (controllers st). signalAborted (fst (useEffect P p st)) c)) \<and>
         (\<forall>signal p' out. signalAborted (fst (useEffect P p st)) signal \<longrightarrow>
            reconnectTimeoutRef (resume P p' signal out (fst (useEffect P p st))) = None) \<and>
         (\<forall>b. connectWithFetch P p b st =
            (logEvent (logLine MSG_config_invalid) (st\<lparr>uiConnectionStatus := Idle\<rparr>), None))"
proof -
  let ?st' = "fst (useEffect P p st)"
  have e: "?st' = (clearReconnectTimeout
           (abortCurrent (st\<lparr>events := [], isConnected := False, isConnecting := False,
                             uiConnectionStatus := Idle\<rparr>)))
          \<lparr>currentApiIdRef := None\<rparr>"
    and n: "snd (useEffect P p st) = None"
    by (simp_all add: idle_state [OF assms])
  have fields: "uiConnectionStatus ?st' = Idle" "\<not> isConnected ?st'" "\<not> isConnecting ?st'"
      "events ?st' = []" "reconnectTimeoutRef ?st' = None" "retryCountRef ?st' = retryCountRef st"
      "currentApiIdRef ?st' = None"
    unfolding e by (simp_all add: clearReconnectTimeout_def abortCurrent_def split: option.splits)
  have ctl: "controllers ?st' = controllers (abortCurrent st)"
    unfolding e by (simp add: clearReconnectTimeout_def abortCurrent_def split: option.splits)
  have ab: "signalAborted ?st' c = (signalAborted st c \<or> abortControllerRef st = Some c)"
    if "c < length (controllers st)" for c
    using that by (simp add: signalAborted_def ctl controllers_abortCurrent)
  have quiet: "reconnectTimeoutRef (resume P p' signal out ?st') = None"
    if "signalAborted ?st' signal" for signal p' out
    using resume_aborted [OF that, of P p' out] fields(5) by simp
  have guard: "connectWithFetch P p b st =
      (logEvent (logLine MSG_config_invalid) (st\<lparr>uiConnectionStatus := Idle\<rparr>), None)" for b
    using assms by (simp add: connectWithFetch_def)
  have all: "signalAborted ?st' c" if "oneLiveAttempt st" "c < length (controllers st)" for c
    using idle_all_aborted [OF assms that] .
  show ?thesis
    using n fields ab all quiet guard by blast
qed

lemma cleared_invalid: "\<not> configValid (exampleProps\<lparr>apiToken := None\<rparr>)"
  by (simp add: configValid_def present_def)

theorem idle_entry_witness:
  "\<not> configValid (exampleProps\<lparr>apiToken := None\<rparr>) \<and>
   (0::nat) < length (controllers (useEffectCleanup connectedSession)) \<and>
   uiConnectionStatus (fst (useEffect examplePlatform (exampleProps\<lparr>apiToken := None\<rparr>)
                              (useEffectCleanup connectedSession))) = Idle \<and>
   events (fst (useEffect examplePlatform (exampleProps\<lparr>apiToken := None\<rparr>)
                  (useEffectCleanup connectedSession))) = [] \<and>
   reconnectTimeoutRef (fst (useEffect examplePlatform (exampleProps\<lparr>apiToken := None\<rparr>)
                  (useEffectCleanup connectedSession))) = None \<and>
   oneLiveAttempt (useEffectCleanup connectedSession) \<and>
   signalAborted (fst (useEffect examplePlatform (exampleProps\<lparr>apiToken := None\<rparr>)
                  (useEffectCleanup connectedSession))) 0 \<and>
   reconnectTimeoutRef
     (resume examplePlatform exampleProps 0 (ReadOutcome [] Done)
        (fst (useEffect examplePlatform (exampleProps\<lparr>apiToken := None\<rparr>)
                  (useEffectCleanup connectedSession)))) = None"
proof -
  have c: "(0::nat) < length (controllers (useEffectCleanup connectedSession))"
      "abortControllerRef (useEffectCleanup connectedSession) = Some 0"
    by (simp_all add: useEffectCleanup_def connectedSession_eq abortCurrent_def
        clearReconnectTimeout_def)
  have inv: "oneLiveAttempt (useEffectCleanup connectedSession)"
    unfolding connectedSession_def
    by (intro oneLiveAttempt_useEffectCleanup oneLiveAttempt_resume oneLiveAttempt_useEffect
        oneLiveAttempt_initial)
  from idle_entry [OF cleared_invalid, of examplePlatform "useEffectCleanup connectedSession"]
  show ?thesis
    using cleared_invalid c inv by simp
qed

text \<open>
  C9 as it is stated fails: when the token of the connected example session is cleared,
  the session becomes idle with an empty log, without the one diagnostic event.
\<close>

theorem idle_entry_silent_counterexample:
  "\<not> configValid (exampleProps\<lparr>apiToken := None\<rparr>) \<and>
   uiConnectionStatus connectedSession = Connected \<and>
   uiConnectionStatus (fst (useEffect examplePlatform (exampleProps\<lparr>apiToken := None\<rparr>)
                              (useEffectCleanup connectedSession))) = Idle \<and>
   events (fst (useEffect examplePlatform (exampleProps\<lparr>apiToken := None\<rparr>)
                  (useEffectCleanup connectedSession))) = []"
  using cleared_invalid
  by (simp add: idle_state [OF cleared_invalid] connectedSession_eq clearReconnectTimeout_def
      abortCurrent_def useEffectCleanup_def)

section \<open>Framing of the stream\<close>

lemma str_split_nonempty [simp]: "str_split sep s \<noteq> []"
  by (induction sep s rule: str_split.induct) (auto split: list.splits)

lemma str_split_match:
  assumes "sep \<noteq> []" "prefix sep (c # cs)"
  shows "str_split sep (c # cs) = [] # str_split sep (drop (length sep) (c # cs))"
  using assms by simp

lemma str_split_step:
  assumes "\<not> prefix sep (c # cs)"
  shows "str_split sep (c # cs) = (c # hd (str_split sep cs)) # tl (str_split sep cs)"
  using assms by (cases "str_split sep cs") auto

lemma str_split_short:
  "length s < length sep \<Longrightarrow> str_split sep s = [s]"
proof (induction s)
  case Nil
  then show ?case by simp
next
  case (Cons c cs)
  then have "\<not> prefix sep (c # cs)"
    by (auto dest: prefix_length_le)
  then show ?case
    using Cons by (simp add: str_split_step del: str_split.simps)
qed

lemma str_split_single:
  "str_split sep s = [x] \<Longrightarrow> x = s"
proof (induction s arbitrary: x)
  case Nil
  then show ?case by simp
next
  case (Cons c cs)
  show ?case
  proof (cases "sep \<noteq> [] \<and> prefix sep (c # cs)")
    case True
    then have "str_split sep (c # cs) = [] # str_split sep (drop (length sep) (c # cs))"
      by (simp add: str_split_match del: str_split.simps)
    then show ?thesis
      using Cons.prems by simp
  next
    case False
    then have "str_split sep (c # cs) = (case str_split sep cs of
              [] \<Rightarrow> [c] # [] | piece # pieces \<Rightarrow> (c # piece) # pieces)"
      by auto
    then obtain y where y: "str_split sep cs = [y]" "x = c # y"
      using Cons.prems by (cases "str_split sep cs") auto
    then show ?thesis
      using Cons.IH by simp
  qed
qed

lemma str_split_append:
  assumes "sep \<noteq> []"
  shows "str_split sep (xs @ ys) =
           butlast (str_split sep xs) @ str_split sep (last (str_split sep xs) @ ys)"
proof (induction xs rule: length_induct)
  case (1 xs)
  show ?case
  proof (cases xs)
    case Nil
    then show ?thesis by simp
  next
    case (Cons c cs)
    let ?S = "str_split sep cs"
    show ?thesis
    proof (cases "prefix sep (c # cs)")
      case True
      let ?r = "drop (length sep) (c # cs)"
      have le: "length sep \<le> length (c # cs)"
        using True by (rule prefix_length_le)
      have p: "prefix sep (c # cs @ ys)"
        using True prefix_prefix [of sep "c # cs" ys] by simp
      have d: "drop (length sep) (c # cs @ ys) = ?r @ ys"
        using le drop_append [of "length sep" "c # cs" ys] by simp
      have shorter: "length ?r < length xs"
        using assms Cons by (cases sep) auto
      have "str_split sep (c # cs @ ys) = [] # str_split sep (?r @ ys)"
        using str_split_match [OF assms p] d by simp
      also have "\<dots> = [] # butlast (str_split sep ?r) @ str_split sep (last (str_split sep ?r) @ ys)"
        using 1 shorter by simp
      also have "\<dots> = butlast (str_split sep (c # cs)) @ str_split sep (last (str_split sep (c # cs)) @ ys)"
        using str_split_match [OF assms True] by simp
      finally show ?thesis
        using Cons by simp
    next
      case False
      note np = False
      have T: "str_split sep (c # cs) = (c # hd ?S) # tl ?S"
        using np by (rule str_split_step)
      show ?thesis
      proof (cases "tl ?S = []")
        case True
        then have "?S = [hd ?S]"
          by (cases ?S) auto
        then have "hd ?S = cs"
          using str_split_single by blast
        then have "str_split sep (c # cs) = [c # cs]"
          using T True by simp
        then show ?thesis
          using Cons by simp
      next
        case False
        have len: "length sep \<le> length cs"
        proof (rule ccontr)
          assume "\<not> length sep \<le> length cs"
          then have "?S = [cs]"
            by (simp add: str_split_short)
          then show False using False by simp
        qed
        have "\<not> prefix sep (c # cs @ ys)"
        proof
          assume a: "prefix sep (c # cs @ ys)"
          have "prefix sep (c # cs)"
            using a len prefix_append [of sep "c # cs" ys] by auto
          then show False using np by simp
        qed
        then have L: "str_split sep (c # cs @ ys) =
            (c # hd (str_split sep (cs @ ys))) # tl (str_split sep (cs @ ys))"
          by (rule str_split_step)
        have IH: "str_split sep (cs @ ys) = butlast ?S @ str_split sep (last ?S @ ys)"
          using 1 Cons by simp
        obtain h t u where S: "?S = h # t # u"
          using False by (cases ?S; cases "tl ?S") auto
        show ?thesis
          using Cons L T IH S by simp
      qed
    qed
  qed
qed


lemma joinWith_Cons:
  "ps \<noteq> [] \<Longrightarrow> joinWith sep (p # ps) = p @ sep @ joinWith sep ps"
  by (cases ps) simp_all

lemma joinWith_push:
  "joinWith sep ((c # h) # t) = c # joinWith sep (h # t)"
  by (cases t) simp_all

lemma joinWith_str_split: "joinWith sep (str_split sep s) = s"
proof (induction s rule: length_induct)
  case (1 s)
  show ?case
  proof (cases s)
    case Nil
    then show ?thesis by simp
  next
    case (Cons c cs)
    show ?thesis
    proof (cases "sep \<noteq> [] \<and> prefix sep (c # cs)")
      case True
      let ?r = "drop (length sep) (c # cs)"
      have "length ?r < length s"
        using True Cons by (cases sep) auto
      then have IH: "joinWith sep (str_split sep ?r) = ?r"
        using 1 by blast
      have "sep @ ?r = c # cs"
        using True by (metis append_take_drop_id prefix_def append_eq_conv_conj)
      then show ?thesis
        using Cons True IH str_split_match [of sep c cs]
        by (simp add: joinWith_Cons del: str_split.simps)
    next
      case False
      then have T: "str_split sep (c # cs) = (c # hd (str_split sep cs)) # tl (str_split sep cs)"
        by (cases "str_split sep cs") auto
      have "joinWith sep (str_split sep cs) = cs"
        using 1 Cons by simp
      then have "joinWith sep (hd (str_split sep cs) # tl (str_split sep cs)) = cs"
        by simp
      then show ?thesis
        using Cons T by (simp add: joinWith_push del: str_split.simps)
    qed
  qed
qed

lemma joinWith_inner:
  "b \<in> set (butlast ps) \<Longrightarrow> \<exists>pre post. joinWith sep ps = pre @ b @ sep @ post"
proof (induction ps)
  case Nil
  then show ?case by simp
next
  case (Cons p qs)
  then have ne: "qs \<noteq> []"
    by auto
  have j: "joinWith sep (p # qs) = p @ sep @ joinWith sep qs"
    using ne by (rule joinWith_Cons)
  from Cons.prems ne consider "b = p" | "b \<in> set (butlast qs)"
    by auto
  then show ?case
  proof cases
    case 1
    then show ?thesis
      using j by (intro exI [of _ "[]"] exI [of _ "joinWith sep qs"]) simp
  next
    case 2
    then obtain pre post where "joinWith sep qs = pre @ b @ sep @ post"
      using Cons.IH by blast
    then show ?thesis
      using j by (intro exI [of _ "p @ sep @ pre"] exI [of _ post]) simp
  qed
qed

lemma joinWith_last:
  "ps \<noteq> [] \<Longrightarrow> \<exists>pre. joinWith sep ps = pre @ last ps"
proof (induction ps)
  case Nil
  then show ?case by simp
next
  case (Cons p qs)
  show ?case
  proof (cases "qs = []")
    case True
    then show ?thesis by simp
  next
    case False
    then obtain pre where "joinWith sep qs = pre @ last qs"
      using Cons.IH by blast
    then show ?thesis
      using False by (intro exI [of _ "p @ sep @ pre"]) (simp add: joinWith_Cons)
  qed
qed

lemma block_followed_by_separator:
  assumes "b \<in> set (butlast (str_split sep s))"
  shows "\<exists>pre post. s = pre @ b @ sep @ post"
  using joinWith_inner [OF assms, of sep] by (simp add: joinWith_str_split)

lemma remainder_is_suffix: "\<exists>pre. s = pre @ last (str_split sep s)"
  using joinWith_last [of "str_split sep s" sep] by (simp add: joinWith_str_split)

lemma remainder_has_no_separator:
  assumes "sep \<noteq> []"
  shows "\<not> sublist sep (last (str_split sep s))"
proof (induction s rule: length_induct)
  case (1 s)
  show ?case
  proof (cases s)
    case Nil
    then show ?thesis using assms by simp
  next
    case (Cons c cs)
    show ?thesis
    proof (cases "prefix sep (c # cs)")
      case True
      let ?r = "drop (length sep) (c # cs)"
      have "length ?r < length s"
        using assms Cons by (cases sep) auto
      then have "\<not> sublist sep (last (str_split sep ?r))"
        using 1 by blast
      then show ?thesis
        using Cons True assms str_split_match [OF assms True] by simp
    next
      case False
      then have T: "str_split sep (c # cs) = (c # hd (str_split sep cs)) # tl (str_split sep cs)"
        by (rule str_split_step)
      have IH: "\<not> sublist sep (last (str_split sep cs))"
        using 1 Cons by simp
      show ?thesis
      proof (cases "tl (str_split sep cs) = []")
        case True
        then have "str_split sep cs = [hd (str_split sep cs)]"
          by (cases "str_split sep cs") auto
        then have h: "hd (str_split sep cs) = cs"
          using str_split_single by blast
        then have "last (str_split sep cs) = cs"
          using \<open>str_split sep cs = [hd (str_split sep cs)]\<close> by (metis last.simps)
        then have "\<not> sublist sep (c # cs)"
          using IH False by (simp add: sublist_Cons_right)
        then show ?thesis
          using Cons T True h by simp
      next
        case False
        then have "last ((c # hd (str_split sep cs)) # tl (str_split sep cs)) = last (str_split sep cs)"
          by (cases "str_split sep cs") auto
        then show ?thesis
          using Cons T IH by simp
      qed
    qed
  qed
qed

lemma str_split_no_separator:
  assumes "\<not> sublist sep s"
  shows "str_split sep s = [s]"
  using assms
proof (induction s)
  case Nil
  then show ?case by simp
next
  case (Cons c cs)
  then have "\<not> prefix sep (c # cs)" "\<not> sublist sep cs"
    by (simp_all add: sublist_Cons_right)
  then show ?case
    using Cons.IH by (simp add: str_split_step del: str_split.simps)
qed

lemma feedChunks_eq:
  assumes "\<not> sublist NLNL buffer"
  shows "feedChunks buffer chunks =
     (filter (\<lambda>block. trim block \<noteq> []) (butlast (str_split NLNL (buffer @ concat chunks))),
      last (str_split NLNL (buffer @ concat chunks)))"
  using assms
proof (induction chunks arbitrary: buffer)
  case Nil
  then show ?case
    by (simp add: str_split_no_separator)
next
  case (Cons c cs)
  let ?S1 = "str_split NLNL (buffer @ c)"
  let ?S2 = "str_split NLNL (last ?S1 @ concat cs)"
  have ne: "NLNL \<noteq> []"
    by (simp add: NLNL_def)
  have sb: "splitBuffer buffer c = (filter (\<lambda>block. trim block \<noteq> []) (butlast ?S1), last ?S1)"
    by (simp add: splitBuffer_def Let_def)
  have whole: "str_split NLNL (buffer @ concat (c # cs)) = butlast ?S1 @ ?S2"
    using str_split_append [OF ne, of "buffer @ c" "concat cs"] by simp
  have b: "butlast (butlast ?S1 @ ?S2) = butlast ?S1 @ butlast ?S2"
    by (simp add: butlast_append)
  have l: "last (butlast ?S1 @ ?S2) = last ?S2"
    by simp
  have IH: "feedChunks (last ?S1) cs =
      (filter (\<lambda>block. trim block \<noteq> []) (butlast ?S2), last ?S2)"
    using Cons.IH [OF remainder_has_no_separator [OF ne] ] .
  show ?case
    unfolding whole b l using sb IH by simp
qed

lemma readLoop_chunks:
  assumes "\<forall>ks. prefix ks (fst (feedChunks buffer chunks)) \<longrightarrow>
              \<not> signalAborted (fold (processSseMessageData P) ks st) signal"
  shows "readLoop P p signal buffer (map Chunk chunks) st =
           fold (processSseMessageData P) (fst (feedChunks buffer chunks)) st"
  using assms
proof (induction chunks arbitrary: buffer st)
  case Nil
  then show ?case by simp
next
  case (Cons c cs)
  obtain blocks buffer' where sb: "splitBuffer buffer c = (blocks, buffer')"
    by (cases "splitBuffer buffer c") auto
  obtain more final where fc: "feedChunks buffer' cs = (more, final)"
    by (cases "feedChunks buffer' cs") auto
  have f: "fst (feedChunks buffer (c # cs)) = blocks @ more"
    by (simp add: sb fc)
  have live: "\<not> signalAborted st signal"
    using Cons.prems [rule_format, of "[]"] by simp
  have step: "readStep P p signal buffer (Chunk c) st =
      (fold (processSseMessageData P) blocks st, Some buffer')"
    using live by (simp add: readStep_def sb)
  have "\<forall>ks. prefix ks (fst (feedChunks buffer' cs)) \<longrightarrow>
      \<not> signalAborted (fold (processSseMessageData P) ks (fold (processSseMessageData P) blocks st)) signal"
  proof (intro allI impI)
    fix ks assume "prefix ks (fst (feedChunks buffer' cs))"
    then have "prefix (blocks @ ks) (fst (feedChunks buffer (c # cs)))"
      unfolding f by (simp add: fc)
    then show "\<not> signalAborted (fold (processSseMessageData P) ks (fold (processSseMessageData P) blocks st)) signal"
      using Cons.prems [rule_format, of "blocks @ ks"] by simp
  qed
  then have "readLoop P p signal buffer' (map Chunk cs) (fold (processSseMessageData P) blocks st) =
      fold (processSseMessageData P) (fst (feedChunks buffer' cs)) (fold (processSseMessageData P) blocks st)"
    by (rule Cons.IH)
  then show ?case
    unfolding f by (simp add: step fc)
qed


lemma split_chunk_a: "splitBuffer [] chunk_a = ([], chunk_a)"
  by (simp add: splitBuffer_def NLNL_def chunk_a_def NL_def ascii_def)

lemma split_chunk_b: "splitBuffer chunk_a chunk_b = ([frame_hello], [])"
  by (simp add: splitBuffer_def NLNL_def chunk_a_def chunk_b_def frame_hello_def NL_def ascii_def
      trim_def isWhiteSpace_def)

lemma ff_hello:
  \<open>frameFields frame_hello = (ascii ''instance'', ascii ''{"type":"log","logs":"hello"}'')\<close>
  by (simp add: frame_hello_def eval_frame)

lemma jp_hello:
  \<open>JSON_parse examplePlatform (ascii ''{"type":"log","logs":"hello"}'') =
     Some (JObject [(ascii ''type'', JString (ascii ''log'')),
                    (ascii ''logs'', JString (ascii ''hello''))])\<close>
  by (simp add: examplePlatform_def eval_json)

lemma level_hello: "parseLogLevel (JString (ascii ''hello'')) = None"
  by (simp add: eval_level)

lemma process_hello:
  "processSseMessageData examplePlatform frame_hello st = logEvent helloEvent st"
proof -
  let ?js = "JObject [(ascii ''type'', JString (ascii ''log'')),
                    (ascii ''logs'', JString (ascii ''hello''))]"
  have ne: \<open>ascii ''{"type":"log","logs":"hello"}'' \<noteq> []\<close>
    by (simp add: ascii_def)
  have nn: "?js \<noteq> JNull"
    by simp
  have c: "classify examplePlatform ?js = (Log, JString (ascii ''hello''), None, False)"
    using level_hello by (simp add: classify_def Let_def or_else_def ascii_def)
  show ?thesis
    unfolding process_instance [OF ff_hello ne jp_hello nn] c
    by (simp add: helloEvent_def ascii_def)
qed

lemma hello_not_status: "\<not> isStatusMessage helloEvent"
  by (simp add: isStatusMessage_def helloEvent_def STATUS_MESSAGE_KEYWORDS_def
      str_includes_def ascii_def sublist_code)

text \<open>
  C1. However the text of the stream is cut into chunks, the blocks handed to the decoder
  are the non-blank pieces of the whole text that end with the separator of two line
  feeds, in order, each of them handed on only once its separator has arrived; the piece
  after the last separator stays in the buffer, holds no separator and is the end of the
  text received so far. As long as no frame aborts the attempt, the read loop does to the
  session what the decoder does on these blocks. In particular, after the first chunk of
  the example the session is as before, and after the second one exactly the event with
  payload "hello" has been added. (The chunks are the texts that the streaming decoder of
  the platform makes of the byte chunks.)
\<close>

theorem frames_only_after_separator:
  "fst (feedChunks [] chunks) =
     filter (\<lambda>block. trim block \<noteq> []) (butlast (str_split NLNL (concat chunks))) \<and>
   snd (feedChunks [] chunks) = last (str_split NLNL (concat chunks)) \<and>
   (\<forall>block \<in> set (fst (feedChunks [] chunks)).
      \<exists>pre post. concat chunks = pre @ block @ NLNL @ post) \<and>
   (\<exists>pre. concat chunks = pre @ snd (feedChunks [] chunks)) \<and>
   \<not> str_includes (snd (feedChunks [] chunks)) NLNL \<and>
   ((\<forall>ks. prefix ks (fst (feedChunks [] chunks)) \<longrightarrow>
           \<not> signalAborted (fold (processSseMessageData P) ks st) signal) \<longrightarrow>
      readLoop P p signal [] (map Chunk chunks) st =
        fold (processSseMessageData P) (fst (feedChunks [] chunks)) st) \<and>
   (\<not> signalAborted st signal \<longrightarrow>
      readLoop examplePlatform p signal [] [Chunk chunk_a] st = st \<and>
      readLoop examplePlatform p signal [] [Chunk chunk_a, Chunk chunk_b] st = logEvent helloEvent st)"
proof -
  have ne: "NLNL \<noteq> []"
    by (simp add: NLNL_def)
  have e: "feedChunks [] chunks =
     (filter (\<lambda>block. trim block \<noteq> []) (butlast (str_split NLNL (concat chunks))),
      last (str_split NLNL (concat chunks)))"
    using feedChunks_eq [of "[]" chunks] ne by simp
  have followed: "\<exists>pre post. concat chunks = pre @ block @ NLNL @ post"
    if "block \<in> set (fst (feedChunks [] chunks))" for block
    using that block_followed_by_separator [of block NLNL "concat chunks"] by (simp add: e)
  have suffix: "\<exists>pre. concat chunks = pre @ snd (feedChunks [] chunks)"
    using remainder_is_suffix [of "concat chunks" NLNL] by (simp add: e)
  have clean: "\<not> str_includes (snd (feedChunks [] chunks)) NLNL"
    using remainder_has_no_separator [OF ne, of "concat chunks"] by (simp add: e str_includes_def)
  have loop: "readLoop P p signal [] (map Chunk chunks) st =
        fold (processSseMessageData P) (fst (feedChunks [] chunks)) st"
    if "\<forall>ks. prefix ks (fst (feedChunks [] chunks)) \<longrightarrow>
           \<not> signalAborted (fold (processSseMessageData P) ks st) signal"
    using that by (rule readLoop_chunks)
  have example: "readLoop examplePlatform p signal [] [Chunk chunk_a] st = st \<and>
      readLoop examplePlatform p signal [] [Chunk chunk_a, Chunk chunk_b] st = logEvent helloEvent st"
    if "\<not> signalAborted st signal"
    using that by (simp add: readStep_def split_chunk_a split_chunk_b process_hello)
  show ?thesis
    using e followed suffix clean loop example by (simp del: feedChunks.simps)
qed

theorem frames_only_after_separator_witness:
  "fst (feedChunks [] [chunk_a]) = [] \<and> snd (feedChunks [] [chunk_a]) = chunk_a \<and>
   fst (feedChunks [] [chunk_a, chunk_b]) = [frame_hello] \<and>
   snd (feedChunks [] [chunk_a, chunk_b]) = [] \<and>
   (\<exists>pre post. concat [chunk_a, chunk_b] = pre @ frame_hello @ NLNL @ post) \<and>
   \<not> signalAborted connectedSession 0 \<and>
   \<not> signalAborted (fold (processSseMessageData examplePlatform) [frame_hello] connectedSession) 0 \<and>
   readLoop examplePlatform exampleProps 0 [] (map Chunk [chunk_a, chunk_b]) connectedSession =
     fold (processSseMessageData examplePlatform) [frame_hello] connectedSession \<and>
   events (readLoop examplePlatform exampleProps 0 [] [Chunk chunk_a] connectedSession)
     = events connectedSession \<and>
   events (readLoop examplePlatform exampleProps 0 [] [Chunk chunk_a, Chunk chunk_b] connectedSession)
     = helloEvent # events connectedSession \<and>
   events (readLoop examplePlatform exampleProps 0 [] [Chunk chunk_a, Chunk chunk_b]
             (connectedSession\<lparr>events := []\<rparr>)) = [helloEvent]"
proof -
  have live: "\<not> signalAborted connectedSession 0" "\<not> signalAborted (connectedSession\<lparr>events := []\<rparr>) 0"
    by (simp_all add: connectedSession_eq signalAborted_def)
  have fa: "feedChunks [] [chunk_a] = ([], chunk_a)"
    by (simp add: split_chunk_a)
  have fb: "feedChunks [] [chunk_a, chunk_b] = ([frame_hello], [])"
    by (simp add: split_chunk_a split_chunk_b)
  have short: "take 199 (events connectedSession) = events connectedSession"
    by (simp add: connectedSession_eq addEventToLog_def filteredPrevEvents_def)
  note t1 = frames_only_after_separator [of "[chunk_a, chunk_b]" examplePlatform connectedSession 0 exampleProps]
  note t2 = frames_only_after_separator [of "[chunk_a, chunk_b]" examplePlatform "connectedSession\<lparr>events := []\<rparr>" 0 exampleProps]
  have sep: "\<exists>pre post. concat [chunk_a, chunk_b] = pre @ frame_hello @ NLNL @ post"
    using t1 fb by simp
  have never: "\<not> signalAborted (fold (processSseMessageData examplePlatform) ks connectedSession) 0"
    if "prefix ks (fst (feedChunks [] [chunk_a, chunk_b]))" for ks
  proof -
    from that have "ks = [] \<or> ks = [frame_hello]"
      unfolding fb by (cases ks) auto
    then show ?thesis
      using live(1) by (auto simp: process_hello)
  qed
  have "(\<forall>ks. prefix ks (fst (feedChunks [] [chunk_a, chunk_b])) \<longrightarrow>
           \<not> signalAborted (fold (processSseMessageData examplePlatform) ks connectedSession) 0) \<longrightarrow>
      readLoop examplePlatform exampleProps 0 [] (map Chunk [chunk_a, chunk_b]) connectedSession =
        fold (processSseMessageData examplePlatform) (fst (feedChunks [] [chunk_a, chunk_b])) connectedSession"
    using t1 by blast
  with never have "readLoop examplePlatform exampleProps 0 [] (map Chunk [chunk_a, chunk_b]) connectedSession =
        fold (processSseMessageData examplePlatform) (fst (feedChunks [] [chunk_a, chunk_b])) connectedSession"
    by blast
  then have loop: "readLoop examplePlatform exampleProps 0 [] (map Chunk [chunk_a, chunk_b]) connectedSession =
     fold (processSseMessageData examplePlatform) [frame_hello] connectedSession"
    by (simp only: fb fst_conv)
  have rest: "fst (feedChunks [] [chunk_a]) = [] \<and> snd (feedChunks [] [chunk_a]) = chunk_a \<and>
      fst (feedChunks [] [chunk_a, chunk_b]) = [frame_hello] \<and>
      snd (feedChunks [] [chunk_a, chunk_b]) = [] \<and>
      events (readLoop examplePlatform exampleProps 0 [] [Chunk chunk_a] connectedSession)
        = events connectedSession \<and>
      events (readLoop examplePlatform exampleProps 0 [] [Chunk chunk_a, Chunk chunk_b] connectedSession)
        = helloEvent # events connectedSession \<and>
      events (readLoop examplePlatform exampleProps 0 [] [Chunk chunk_a, Chunk chunk_b]
             (connectedSession\<lparr>events := []\<rparr>)) = [helloEvent]"
    using t1 t2 live fa fb short
    by (simp add: logEvent_def addEventToLog_def filteredPrevEvents_def hello_not_status
        del: feedChunks.simps)
  have after: "\<not> signalAborted (fold (processSseMessageData examplePlatform) [frame_hello] connectedSession) 0"
    using never [of "[frame_hello]"] by (simp only: fb fst_conv prefix_order.order_refl simp_thms)
  show ?thesis
    using rest sep live(1) after loop by blast
qed

end
